theory Spec2Isabelle
  imports Complex_Main "HOL-Library.Word" "HOL-Library.AList"
begin

section \<open>The todo application: repository and service over a document store\<close>

text \<open>
  The development embeds \<^verbatim>\<open>app/models/todo.py\<close>,
  \<^verbatim>\<open>app/repositories/todo_repository.py\<close> and
  \<^verbatim>\<open>app/services/todo_service.py\<close>.  The repository is a class around one
  MongoDB collection; every method is one or two calls of the driver.  The collection is
  modelled as the list of its documents in scan order and is passed explicitly: a method
  that writes returns the new collection beside its result.  What the source reads from
  its environment is an argument of the model: the instant \<open>datetime.utcnow()\<close>
  returns (\<open>now\<close>) and the identifier the driver generates for an inserted document
  (\<open>new_id\<close>).  A raise of the source is a value \<open>Inl e\<close>.  Failures of the
  connection to the store are outside the model.
\<close>

subsection \<open>Exceptions\<close>

datatype error =
    InvalidId
  | DuplicateKeyError
  | ValidationError
  | ValueError
  | ZeroDivisionError
  | TypeError

subsection \<open>ObjectId\<close>

text \<open>
  A BSON ObjectId is 12 bytes.  \<open>ObjectId(s)\<close> accepts a string of exactly 24
  hexadecimal digits (either case) and raises \<open>InvalidId\<close> otherwise;
  \<open>str(oid)\<close> is the 24 lower-case digits; \<open>ObjectId.is_valid\<close> is false on
  the empty string and otherwise tries the constructor.
\<close>

type_synonym ObjectId = "96 word"

definition hex_value :: "char \<Rightarrow> nat option" where
  "hex_value c =
     map_of (zip ''0123456789abcdefABCDEF''
               [0, 1, 2, 3, 4, 5, 6, 7, 8, 9, 10, 11, 12, 13, 14, 15, 10, 11, 12, 13, 14, 15]) c"

definition hex_char :: "nat \<Rightarrow> char" where
  "hex_char d = ''0123456789abcdef'' ! d"

fun hex_digits :: "nat \<Rightarrow> nat \<Rightarrow> nat list" where
  "hex_digits 0 x = []"
| "hex_digits (Suc n) x = hex_digits n (x div 16) @ [x mod 16]"

definition from_hex_digits :: "nat list \<Rightarrow> nat" where
  "from_hex_digits ds = foldl (\<lambda>a d. 16 * a + d) 0 ds"

definition ObjectId_of_str :: "string \<Rightarrow> error + ObjectId" where
  "ObjectId_of_str s =
     (if length s = 24 then
        (case those (map hex_value s) of
           None \<Rightarrow> Inl InvalidId
         | Some ds \<Rightarrow> Inr (word_of_nat (from_hex_digits ds)))
      else Inl InvalidId)"

definition ObjectId_is_valid :: "string \<Rightarrow> bool" where
  "ObjectId_is_valid s =
     (if s = [] then False
      else (case ObjectId_of_str s of Inl e \<Rightarrow> False | Inr oid \<Rightarrow> True))"

definition ObjectId_str :: "ObjectId \<Rightarrow> string" where
  "ObjectId_str oid = map hex_char (hex_digits 24 (unat oid))"

subsection \<open>Documents and the collection\<close>

text \<open>
  The values this application stores are null, strings (the two enumerations are
  \<open>str\<close> enums and are encoded as their value), ObjectIds and datetimes.  An
  instant is an integer, in the resolution the store keeps.  A document is the ordered
  list of its fields.
\<close>

type_synonym datetime = int

datatype bson = BNull | BString string | BObjectId ObjectId | BDate datetime

type_synonym document = "(string \<times> bson) list"

type_synonym collection = "document list"

text \<open>A field that is absent reads as null in equality tests and in sorting.\<close>

definition get_field :: "document \<Rightarrow> string \<Rightarrow> bson" where
  "get_field d k = (case map_of d k of None \<Rightarrow> BNull | Some v \<Rightarrow> v)"

text \<open>
  The store's comparison order: values of different types compare by type
  (null, then strings, then ObjectIds, then dates); strings compare byte by byte,
  ObjectIds as their 12 bytes, dates by instant.
\<close>

fun bson_rank :: "bson \<Rightarrow> nat" where
  "bson_rank BNull = 0"
| "bson_rank (BString s) = 1"
| "bson_rank (BObjectId i) = 2"
| "bson_rank (BDate t) = 3"

fun string_lt :: "string \<Rightarrow> string \<Rightarrow> bool" where
  "string_lt [] [] = False"
| "string_lt [] (y # ys) = True"
| "string_lt (x # xs) [] = False"
| "string_lt (x # xs) (y # ys) =
     ((of_char x :: nat) < of_char y \<or> (x = y \<and> string_lt xs ys))"

fun bson_lt :: "bson \<Rightarrow> bson \<Rightarrow> bool" where
  "bson_lt (BString a) (BString b) = string_lt a b"
| "bson_lt (BObjectId a) (BObjectId b) = (a < b)"
| "bson_lt (BDate a) (BDate b) = (a < b)"
| "bson_lt a b = (bson_rank a < bson_rank b)"

text \<open>
  The filters the repository builds: a dictionary from field names to either a value
  (equality) or one of the operators \<open>$lt\<close>, \<open>$ne\<close>.  \<open>$lt\<close> only
  matches a value of the same type as its bound.
\<close>

datatype cond = Eq bson | Lt bson | Ne bson

type_synonym query = "(string \<times> cond) list"

fun cond_holds :: "cond \<Rightarrow> bson \<Rightarrow> bool" where
  "cond_holds (Eq v) x = (x = v)"
| "cond_holds (Ne v) x = (x \<noteq> v)"
| "cond_holds (Lt v) x = (bson_rank x = bson_rank v \<and> bson_lt x v)"

definition matches :: "query \<Rightarrow> document \<Rightarrow> bool" where
  "matches q d = list_all (\<lambda>(k, c). cond_holds c (get_field d k)) q"

definition collection_find :: "query \<Rightarrow> collection \<Rightarrow> document list" where
  "collection_find q coll = filter (matches q) coll"

definition collection_find_one :: "query \<Rightarrow> collection \<Rightarrow> document option" where
  "collection_find_one q coll =
     (case collection_find q coll of [] \<Rightarrow> None | d # ds \<Rightarrow> Some d)"

definition collection_count_documents :: "query \<Rightarrow> collection \<Rightarrow> int" where
  "collection_count_documents q coll = int (length (collection_find q coll))"

text \<open>
  \<open>insert_one\<close>: a document without \<open>_id\<close> gets the generated identifier as
  its first field; the unique index on \<open>_id\<close> refuses an identifier that is already
  in the collection.  The result is \<open>inserted_id\<close>.
\<close>

definition collection_insert_one ::
  "ObjectId \<Rightarrow> document \<Rightarrow> collection \<Rightarrow> (error + bson) \<times> collection" where
  "collection_insert_one new_id doc coll =
     (let doc' = (if map_of doc ''_id'' = None then (''_id'', BObjectId new_id) # doc else doc);
          inserted_id = get_field doc' ''_id''
      in if list_ex (\<lambda>d. get_field d ''_id'' = inserted_id) coll
         then (Inl DuplicateKeyError, coll)
         else (Inr inserted_id, coll @ [doc']))"

text \<open>
  \<open>update_one(filter, {"$set": fields})\<close>: the first matching document gets every
  listed field set (in place when the document has it, appended otherwise);
  \<open>modified_count\<close> is 1 when that changed the document and 0 otherwise.
\<close>

definition dict_update :: "document \<Rightarrow> document \<Rightarrow> document" where
  "dict_update d fields = fold (\<lambda>(k, v). AList.update k v) fields d"

definition set_fields :: "document \<Rightarrow> document \<Rightarrow> document" where
  "set_fields fields d = dict_update d fields"

fun collection_update_one :: "query \<Rightarrow> document \<Rightarrow> collection \<Rightarrow> nat \<times> collection" where
  "collection_update_one q fields [] = (0, [])"
| "collection_update_one q fields (d # ds) =
     (if matches q d
      then (if set_fields fields d \<noteq> d then 1 else 0, set_fields fields d # ds)
      else (fst (collection_update_one q fields ds),
            d # snd (collection_update_one q fields ds)))"

text \<open>\<open>delete_one(filter)\<close> removes the first matching document; the result is
  \<open>deleted_count\<close>.\<close>

fun collection_delete_one :: "query \<Rightarrow> collection \<Rightarrow> nat \<times> collection" where
  "collection_delete_one q [] = (0, [])"
| "collection_delete_one q (d # ds) =
     (if matches q d then (1, ds)
      else (fst (collection_delete_one q ds), d # snd (collection_delete_one q ds)))"

text \<open>
  The cursor: \<open>sort\<close> orders by one field in the store's comparison order (documents
  with equal keys keep their scan order), \<open>skip\<close> raises \<open>ValueError\<close> on a
  negative number, \<open>limit(0)\<close> is no limit and a negative limit counts as its
  absolute value.
\<close>

datatype direction = ASCENDING | DESCENDING

definition sort_before :: "string \<Rightarrow> direction \<Rightarrow> document \<Rightarrow> document \<Rightarrow> bool" where
  "sort_before key dir a b =
     (case dir of
        ASCENDING \<Rightarrow> bson_lt (get_field a key) (get_field b key)
      | DESCENDING \<Rightarrow> bson_lt (get_field b key) (get_field a key))"

fun insert_sorted :: "string \<Rightarrow> direction \<Rightarrow> document \<Rightarrow> document list \<Rightarrow> document list" where
  "insert_sorted key dir x [] = [x]"
| "insert_sorted key dir x (y # ys) =
     (if sort_before key dir y x then y # insert_sorted key dir x ys else x # y # ys)"

definition cursor_sort :: "(string \<times> direction) \<Rightarrow> document list \<Rightarrow> document list" where
  "cursor_sort sort_query docs = foldr (insert_sorted (fst sort_query) (snd sort_query)) docs []"

definition cursor_skip :: "int \<Rightarrow> document list \<Rightarrow> error + document list" where
  "cursor_skip n docs = (if n < 0 then Inl ValueError else Inr (drop (nat n) docs))"

definition cursor_limit :: "int \<Rightarrow> document list \<Rightarrow> document list" where
  "cursor_limit n docs = (if n = 0 then docs else take (nat \<bar>n\<bar>) docs)"

subsection \<open>Models (\<^verbatim>\<open>app/models/todo.py\<close>)\<close>

datatype TodoStatus = PENDING | IN_PROGRESS | COMPLETED

fun TodoStatus_value :: "TodoStatus \<Rightarrow> string" where
  "TodoStatus_value PENDING = ''pending''"
| "TodoStatus_value IN_PROGRESS = ''in_progress''"
| "TodoStatus_value COMPLETED = ''completed''"

definition TodoStatus_of_value :: "string \<Rightarrow> TodoStatus option" where
  "TodoStatus_of_value s =
     (if s = ''pending'' then Some PENDING
      else if s = ''in_progress'' then Some IN_PROGRESS
      else if s = ''completed'' then Some COMPLETED
      else None)"

datatype TodoPriority = LOW | MEDIUM | HIGH

fun TodoPriority_value :: "TodoPriority \<Rightarrow> string" where
  "TodoPriority_value LOW = ''low''"
| "TodoPriority_value MEDIUM = ''medium''"
| "TodoPriority_value HIGH = ''high''"

definition TodoPriority_of_value :: "string \<Rightarrow> TodoPriority option" where
  "TodoPriority_of_value s =
     (if s = ''low'' then Some LOW
      else if s = ''medium'' then Some MEDIUM
      else if s = ''high'' then Some HIGH
      else None)"

record TodoBase =
  title :: string
  description :: "string option"
  status :: TodoStatus
  priority :: TodoPriority
  due_date :: "datetime option"

type_synonym TodoCreate = TodoBase

record TodoUpdate =
  title :: "string option"
  description :: "string option"
  status :: "TodoStatus option"
  priority :: "TodoPriority option"
  due_date :: "datetime option"

record TodoInDB = TodoBase +
  id' :: ObjectId
  created_at :: datetime
  updated_at :: datetime

record TodoResponse = TodoBase +
  id' :: string
  created_at :: datetime
  updated_at :: datetime

record TodoListResponse =
  todos :: "TodoResponse list"
  total :: int
  page :: int
  size' :: int
  pages :: int

text \<open>\<open>.dict()\<close>: the fields in declaration order, \<open>None\<close> as null.\<close>

definition opt_str :: "string option \<Rightarrow> bson" where
  "opt_str x = (case x of None \<Rightarrow> BNull | Some s \<Rightarrow> BString s)"

definition opt_date :: "datetime option \<Rightarrow> bson" where
  "opt_date x = (case x of None \<Rightarrow> BNull | Some t \<Rightarrow> BDate t)"

definition TodoCreate_dict :: "TodoCreate \<Rightarrow> document" where
  "TodoCreate_dict t =
     [(''title'', BString (TodoBase.title t)),
      (''description'', opt_str (TodoBase.description t)),
      (''status'', BString (TodoStatus_value (TodoBase.status t))),
      (''priority'', BString (TodoPriority_value (TodoBase.priority t))),
      (''due_date'', opt_date (TodoBase.due_date t))]"

definition TodoUpdate_dict :: "TodoUpdate \<Rightarrow> document" where
  "TodoUpdate_dict u =
     [(''title'', opt_str (TodoUpdate.title u)),
      (''description'', opt_str (TodoUpdate.description u)),
      (''status'', opt_str (map_option TodoStatus_value (TodoUpdate.status u))),
      (''priority'', opt_str (map_option TodoPriority_value (TodoUpdate.priority u))),
      (''due_date'', opt_date (TodoUpdate.due_date u))]"

text \<open>
  The constraints of the fields, as \<open>Field(...)\<close> declares them.  Lengths count the
  characters of the string.
\<close>

definition TodoCreate_valid :: "TodoCreate \<Rightarrow> bool" where
  "TodoCreate_valid t =
     (1 \<le> length (TodoBase.title t) \<and> length (TodoBase.title t) \<le> 200 \<and>
      (case TodoBase.description t of None \<Rightarrow> True | Some s \<Rightarrow> length s \<le> 1000))"

definition TodoUpdate_valid :: "TodoUpdate \<Rightarrow> bool" where
  "TodoUpdate_valid u =
     ((case TodoUpdate.title u of None \<Rightarrow> True | Some s \<Rightarrow> 1 \<le> length s \<and> length s \<le> 200) \<and>
      (case TodoUpdate.description u of None \<Rightarrow> True | Some s \<Rightarrow> length s \<le> 1000))"

text \<open>
  \<open>TodoInDB(**document)\<close>: the validation of a stored document.  A failed field
  raises \<open>ValidationError\<close>; keys the model does not declare are ignored.  The default
  factories of \<open>_id\<close>, \<open>created_at\<close> and \<open>updated_at\<close> are not modelled: a
  stored document always has the three (\<open>insert_one\<close> and \<open>create_todo\<close> add
  them, nothing removes a key), and the model reports a document without one as invalid.
\<close>

fun try_bind :: "error + 'a \<Rightarrow> ('a \<Rightarrow> error + 'b) \<Rightarrow> error + 'b" where
  "try_bind (Inl e) f = Inl e"
| "try_bind (Inr x) f = f x"

fun validate_title :: "bson option \<Rightarrow> error + string" where
  "validate_title (Some (BString s)) =
     (if 1 \<le> length s \<and> length s \<le> 200 then Inr s else Inl ValidationError)"
| "validate_title v = Inl ValidationError"

fun validate_description :: "bson option \<Rightarrow> error + string option" where
  "validate_description None = Inr None"
| "validate_description (Some BNull) = Inr None"
| "validate_description (Some (BString s)) =
     (if length s \<le> 1000 then Inr (Some s) else Inl ValidationError)"
| "validate_description v = Inl ValidationError"

fun validate_status :: "bson option \<Rightarrow> error + TodoStatus" where
  "validate_status None = Inr PENDING"
| "validate_status (Some (BString s)) =
     (case TodoStatus_of_value s of None \<Rightarrow> Inl ValidationError | Some x \<Rightarrow> Inr x)"
| "validate_status v = Inl ValidationError"

fun validate_priority :: "bson option \<Rightarrow> error + TodoPriority" where
  "validate_priority None = Inr MEDIUM"
| "validate_priority (Some (BString s)) =
     (case TodoPriority_of_value s of None \<Rightarrow> Inl ValidationError | Some x \<Rightarrow> Inr x)"
| "validate_priority v = Inl ValidationError"

fun validate_due_date :: "bson option \<Rightarrow> error + datetime option" where
  "validate_due_date None = Inr None"
| "validate_due_date (Some BNull) = Inr None"
| "validate_due_date (Some (BDate t)) = Inr (Some t)"
| "validate_due_date v = Inl ValidationError"

text \<open>\<open>PyObjectId.validate\<close>\<close>

fun PyObjectId_validate :: "bson option \<Rightarrow> error + ObjectId" where
  "PyObjectId_validate (Some (BObjectId i)) = Inr i"
| "PyObjectId_validate (Some (BString s)) =
     (if \<not> ObjectId_is_valid s then Inl ValidationError else ObjectId_of_str s)"
| "PyObjectId_validate v = Inl ValidationError"

fun validate_datetime :: "bson option \<Rightarrow> error + datetime" where
  "validate_datetime (Some (BDate t)) = Inr t"
| "validate_datetime v = Inl ValidationError"

definition TodoInDB_of_document :: "document \<Rightarrow> error + TodoInDB" where
  "TodoInDB_of_document d =
     try_bind (validate_title (map_of d ''title'')) (\<lambda>t.
     try_bind (validate_description (map_of d ''description'')) (\<lambda>de.
     try_bind (validate_status (map_of d ''status'')) (\<lambda>s.
     try_bind (validate_priority (map_of d ''priority'')) (\<lambda>p.
     try_bind (validate_due_date (map_of d ''due_date'')) (\<lambda>du.
     try_bind (PyObjectId_validate (map_of d ''_id'')) (\<lambda>i.
     try_bind (validate_datetime (map_of d ''created_at'')) (\<lambda>c.
     try_bind (validate_datetime (map_of d ''updated_at'')) (\<lambda>u.
       Inr \<lparr> TodoBase.title = t, TodoBase.description = de, TodoBase.status = s,
             TodoBase.priority = p, TodoBase.due_date = du,
             TodoInDB.id' = i, TodoInDB.created_at = c, TodoInDB.updated_at = u \<rparr>))))))))"

text \<open>The loop \<open>async for todo in cursor: todos.append(TodoInDB(**todo))\<close>.\<close>

fun collect_todos :: "document list \<Rightarrow> error + TodoInDB list" where
  "collect_todos [] = Inr []"
| "collect_todos (d # ds) =
     try_bind (TodoInDB_of_document d) (\<lambda>t.
     try_bind (collect_todos ds) (\<lambda>ts. Inr (t # ts)))"

subsection \<open>The repository (\<^verbatim>\<open>app/repositories/todo_repository.py\<close>)\<close>

definition id_query :: "bson \<Rightarrow> query" where
  "id_query v = [(''_id'', Eq v)]"

definition TodoRepository_create_todo ::
  "datetime \<Rightarrow> ObjectId \<Rightarrow> TodoCreate \<Rightarrow> collection \<Rightarrow> (error + TodoInDB) \<times> collection" where
  "TodoRepository_create_todo now new_id todo_data coll =
     (let todo_dict = dict_update (TodoCreate_dict todo_data)
                        [(''created_at'', BDate now), (''updated_at'', BDate now)]
      in case collection_insert_one new_id todo_dict coll of
           (Inl e, coll') \<Rightarrow> (Inl e, coll')
         | (Inr inserted_id, coll') \<Rightarrow>
             (case collection_find_one (id_query inserted_id) coll' of
                None \<Rightarrow> (Inl TypeError, coll')
              | Some created_todo \<Rightarrow> (TodoInDB_of_document created_todo, coll')))"

definition TodoRepository_get_todo_by_id ::
  "string \<Rightarrow> collection \<Rightarrow> error + TodoInDB option" where
  "TodoRepository_get_todo_by_id todo_id coll =
     (if \<not> ObjectId_is_valid todo_id then Inr None
      else
        try_bind (ObjectId_of_str todo_id) (\<lambda>oid.
          case collection_find_one (id_query (BObjectId oid)) coll of
            None \<Rightarrow> Inr None
          | Some todo \<Rightarrow>
              (if todo \<noteq> [] then try_bind (TodoInDB_of_document todo) (\<lambda>t. Inr (Some t))
               else Inr None)))"

text \<open>\<open>str.lower()\<close>, on the ASCII letters.\<close>

definition lower_char :: "char \<Rightarrow> char" where
  "lower_char c =
     (case map_of (zip ''ABCDEFGHIJKLMNOPQRSTUVWXYZ'' ''abcdefghijklmnopqrstuvwxyz'') c of
        None \<Rightarrow> c
      | Some l \<Rightarrow> l)"

definition str_lower :: "string \<Rightarrow> string" where
  "str_lower s = map lower_char s"

text \<open>
  \<open>if status:\<close> tests the truth value of an optional \<open>str\<close> enum member:
  false for \<open>None\<close> and for a member whose value is the empty string.
\<close>

definition filter_query :: "TodoStatus option \<Rightarrow> TodoPriority option \<Rightarrow> query" where
  "filter_query status' priority' =
     (case status' of
        None \<Rightarrow> []
      | Some s \<Rightarrow> (if TodoStatus_value s \<noteq> [] then [(''status'', Eq (BString (TodoStatus_value s)))] else []))
     @
     (case priority' of
        None \<Rightarrow> []
      | Some p \<Rightarrow> (if TodoPriority_value p \<noteq> [] then [(''priority'', Eq (BString (TodoPriority_value p)))] else []))"

definition TodoRepository_get_todos ::
  "int \<Rightarrow> int \<Rightarrow> TodoStatus option \<Rightarrow> TodoPriority option \<Rightarrow> string \<Rightarrow> string \<Rightarrow> collection
     \<Rightarrow> error + (TodoInDB list \<times> int)" where
  "TodoRepository_get_todos skip limit status' priority' sort_by sort_order coll =
     (let fq = filter_query status' priority';
          sort_direction = (if str_lower sort_order = ''desc'' then DESCENDING else ASCENDING);
          sort_query = (sort_by, sort_direction);
          tot = collection_count_documents fq coll
      in try_bind (cursor_skip skip (cursor_sort sort_query (collection_find fq coll))) (\<lambda>skipped.
         try_bind (collect_todos (cursor_limit limit skipped)) (\<lambda>ts.
           Inr (ts, tot))))"

text \<open>
  \<open>update_data\<close> keeps the entries of \<open>todo_data.dict()\<close> whose value is not
  \<open>None\<close>.
\<close>

definition update_data_of :: "TodoUpdate \<Rightarrow> document" where
  "update_data_of todo_data = filter (\<lambda>(k, v). v \<noteq> BNull) (TodoUpdate_dict todo_data)"

definition TodoRepository_update_todo ::
  "datetime \<Rightarrow> string \<Rightarrow> TodoUpdate \<Rightarrow> collection \<Rightarrow> (error + TodoInDB option) \<times> collection" where
  "TodoRepository_update_todo now todo_id todo_data coll =
     (if \<not> ObjectId_is_valid todo_id then (Inr None, coll)
      else
        (let update_data = update_data_of todo_data
         in if update_data = [] then (TodoRepository_get_todo_by_id todo_id coll, coll)
            else
              (let update_data' = AList.update ''updated_at'' (BDate now) update_data
               in case ObjectId_of_str todo_id of
                    Inl e \<Rightarrow> (Inl e, coll)
                  | Inr oid \<Rightarrow>
                      (case collection_update_one (id_query (BObjectId oid)) update_data' coll of
                         (modified_count, coll') \<Rightarrow>
                           (if modified_count \<noteq> 0
                            then (TodoRepository_get_todo_by_id todo_id coll', coll')
                            else (Inr None, coll'))))))"

definition TodoRepository_delete_todo ::
  "string \<Rightarrow> collection \<Rightarrow> (error + bool) \<times> collection" where
  "TodoRepository_delete_todo todo_id coll =
     (if \<not> ObjectId_is_valid todo_id then (Inr False, coll)
      else
        (case ObjectId_of_str todo_id of
           Inl e \<Rightarrow> (Inl e, coll)
         | Inr oid \<Rightarrow>
             (case collection_delete_one (id_query (BObjectId oid)) coll of
                (deleted_count, coll') \<Rightarrow> (Inr (deleted_count > 0), coll'))))"

definition TodoRepository_get_todos_by_status ::
  "TodoStatus \<Rightarrow> collection \<Rightarrow> error + TodoInDB list" where
  "TodoRepository_get_todos_by_status status' coll =
     collect_todos (collection_find [(''status'', Eq (BString (TodoStatus_value status')))] coll)"



subsection \<open>The service (\<^verbatim>\<open>app/services/todo_service.py\<close>)\<close>

definition convert_to_response :: "TodoInDB \<Rightarrow> TodoResponse" where
  "convert_to_response todo_in_db =
     \<lparr> TodoBase.title = TodoBase.title todo_in_db,
       TodoBase.description = TodoBase.description todo_in_db,
       TodoBase.status = TodoBase.status todo_in_db,
       TodoBase.priority = TodoBase.priority todo_in_db,
       TodoBase.due_date = TodoBase.due_date todo_in_db,
       TodoResponse.id' = ObjectId_str (TodoInDB.id' todo_in_db),
       TodoResponse.created_at = TodoInDB.created_at todo_in_db,
       TodoResponse.updated_at = TodoInDB.updated_at todo_in_db \<rparr>"

definition TodoService_create_todo ::
  "datetime \<Rightarrow> ObjectId \<Rightarrow> TodoCreate \<Rightarrow> collection \<Rightarrow> (error + TodoResponse) \<times> collection" where
  "TodoService_create_todo now new_id todo_data coll =
     (case TodoRepository_create_todo now new_id todo_data coll of
        (r, coll') \<Rightarrow> (try_bind r (\<lambda>todo_in_db. Inr (convert_to_response todo_in_db)), coll'))"

definition TodoService_get_todo :: "string \<Rightarrow> collection \<Rightarrow> error + TodoResponse option" where
  "TodoService_get_todo todo_id coll =
     try_bind (TodoRepository_get_todo_by_id todo_id coll) (\<lambda>todo_in_db.
       case todo_in_db of
         Some t \<Rightarrow> Inr (Some (convert_to_response t))
       | None \<Rightarrow> Inr None)"

text \<open>
  \<open>ceil(total / size)\<close>: the division raises on a zero \<open>size\<close>.  The quotient is
  exact in the model; the float quotient of the source has the same ceiling for every
  \<open>size\<close> up to 100 and every \<open>total\<close> below \<open>2 ^ 46\<close>.
\<close>

definition TodoService_get_todos ::
  "int \<Rightarrow> int \<Rightarrow> TodoStatus option \<Rightarrow> TodoPriority option \<Rightarrow> string \<Rightarrow> string \<Rightarrow> collection
     \<Rightarrow> error + TodoListResponse" where
  "TodoService_get_todos pg sz status' priority' sort_by sort_order coll =
     (let skip = (pg - 1) * sz
      in try_bind (TodoRepository_get_todos skip sz status' priority' sort_by sort_order coll)
           (\<lambda>(todos_in_db, tot).
              try_bind (if tot > 0
                        then (if sz = 0 then Inl ZeroDivisionError
                              else Inr \<lceil>real_of_int tot / real_of_int sz\<rceil>)
                        else Inr 1)
                (\<lambda>pgs. Inr \<lparr> todos = map convert_to_response todos_in_db, total = tot,
                               page = pg, size' = sz, pages = pgs \<rparr>)))"

definition TodoService_update_todo ::
  "datetime \<Rightarrow> string \<Rightarrow> TodoUpdate \<Rightarrow> collection \<Rightarrow> (error + TodoResponse option) \<times> collection" where
  "TodoService_update_todo now todo_id todo_data coll =
     (case TodoRepository_update_todo now todo_id todo_data coll of
        (r, coll') \<Rightarrow>
          (try_bind r (\<lambda>todo_in_db.
             case todo_in_db of
               Some t \<Rightarrow> Inr (Some (convert_to_response t))
             | None \<Rightarrow> Inr None), coll'))"



subsection \<open>Collections written by the repository\<close>

text \<open>
  A stored todo is a document that validates as \<open>TodoInDB\<close> and whose \<open>_id\<close>,
  \<open>status\<close> and \<open>priority\<close> fields hold what the validated record shows (the
  document has the fields; they are not filled in by a default).  The unique index keeps
  the identifiers of a collection distinct.
\<close>

definition stored_todo :: "document \<Rightarrow> bool" where
  "stored_todo d =
     (case TodoInDB_of_document d of
        Inl e \<Rightarrow> False
      | Inr t \<Rightarrow>
          get_field d ''_id'' = BObjectId (TodoInDB.id' t) \<and>
          get_field d ''status'' = BString (TodoStatus_value (TodoBase.status t)) \<and>
          get_field d ''priority'' = BString (TodoPriority_value (TodoBase.priority t)))"

definition stored_todos :: "collection \<Rightarrow> bool" where
  "stored_todos coll =
     (list_all stored_todo coll \<and> distinct (map (\<lambda>d. get_field d ''_id'') coll))"

text \<open>The document \<open>create_todo\<close> hands to the store, with the generated identifier.\<close>

definition stored_document :: "datetime \<Rightarrow> ObjectId \<Rightarrow> TodoCreate \<Rightarrow> document" where
  "stored_document now new_id todo_data =
     (''_id'', BObjectId new_id) #
       TodoCreate_dict todo_data @ [(''created_at'', BDate now), (''updated_at'', BDate now)]"

text \<open>
  A history of the collection: the writing calls of the repository, each with the instant
  the clock shows when it runs.
\<close>

datatype request =
    Create ObjectId TodoCreate
  | Update string TodoUpdate
  | Delete string

fun apply_request :: "datetime \<Rightarrow> request \<Rightarrow> collection \<Rightarrow> collection" where
  "apply_request now (Create new_id todo_data) coll =
     snd (TodoRepository_create_todo now new_id todo_data coll)"
| "apply_request now (Update todo_id todo_data) coll =
     snd (TodoRepository_update_todo now todo_id todo_data coll)"
| "apply_request now (Delete todo_id) coll =
     snd (TodoRepository_delete_todo todo_id coll)"

fun run :: "(datetime \<times> request) list \<Rightarrow> collection \<Rightarrow> collection" where
  "run [] coll = coll"
| "run ((now, r) # rs) coll = run rs (apply_request now r coll)"

text \<open>
  The order of the two timestamps of a document, both being instants not after the clock.
\<close>

fun ordered_dates :: "datetime \<Rightarrow> bson option \<Rightarrow> bson option \<Rightarrow> bool" where
  "ordered_dates clock (Some (BDate c)) (Some (BDate u)) = (c \<le> u \<and> u \<le> clock)"
| "ordered_dates clock a b = False"

definition timestamps_ordered :: "datetime \<Rightarrow> document \<Rightarrow> bool" where
  "timestamps_ordered clock d =
     ordered_dates clock (map_of d ''created_at'') (map_of d ''updated_at'')"

text \<open>A creation input, the todo stored for it and its record, for the examples below.\<close>

definition example_create :: TodoCreate where
  "example_create =
     \<lparr> TodoBase.title = ''pay rent'', TodoBase.description = Some ''by transfer'',
       TodoBase.status = PENDING, TodoBase.priority = LOW, TodoBase.due_date = Some 9 \<rparr>"


definition example_document :: document where
  "example_document =
     [(''_id'', BObjectId 1), (''title'', BString ''pay rent''),
      (''description'', BString ''by transfer''), (''status'', BString ''pending''),
      (''priority'', BString ''low''), (''due_date'', BDate 9),
      (''created_at'', BDate 1), (''updated_at'', BDate 1)]"

definition example_todo :: TodoInDB where
  "example_todo =
     \<lparr> TodoBase.title = ''pay rent'', TodoBase.description = Some ''by transfer'',
       TodoBase.status = PENDING, TodoBase.priority = LOW, TodoBase.due_date = Some 9,
       TodoInDB.id' = 1, TodoInDB.created_at = 1, TodoInDB.updated_at = 1 \<rparr>"

section \<open>Properties\<close>

subsection \<open>ObjectId strings\<close>

lemma hex_digits_numeral [simp]:
  "hex_digits (numeral k) x = hex_digits (pred_numeral k) (x div 16) @ [x mod 16]"
  by (subst numeral_eq_Suc) simp

lemma length_hex_digits [simp]: "length (hex_digits n x) = n"
  by (induction n arbitrary: x) simp_all

lemma hex_digits_bound: "d \<in> set (hex_digits n x) \<Longrightarrow> d < 16"
  by (induction n arbitrary: x) auto

lemma from_hex_digits_snoc: "from_hex_digits (ds @ [d]) = 16 * from_hex_digits ds + d"
  by (simp add: from_hex_digits_def)

lemma from_hex_digits_hex_digits: "from_hex_digits (hex_digits n x) = x mod 16 ^ n"
proof (induction n arbitrary: x)
  case 0
  show ?case by (simp add: from_hex_digits_def)
next
  case (Suc n)
  have "16 * (x div 16 mod 16 ^ n) + x mod 16 = x mod (16 * 16 ^ n)"
    by (simp add: mod_mult2_eq)
  then show ?case
    by (simp add: from_hex_digits_snoc Suc.IH)
qed

lemma hex_value_hex_char: "d < 16 \<Longrightarrow> hex_value (hex_char d) = Some d"
proof -
  assume "d < 16"
  then have "d \<in> {0, 1, 2, 3, 4, 5, 6, 7, 8, 9, 10, 11, 12, 13, 14, 15}"
    by (simp only: insert_iff empty_iff) arith
  then show ?thesis
    by (elim insertE emptyE) (simp_all add: hex_value_def hex_char_def)
qed

lemma those_hex_value: "\<forall>d\<in>set ds. d < 16 \<Longrightarrow> those (map hex_value (map hex_char ds)) = Some ds"
  by (induction ds) (simp_all add: hex_value_hex_char)

lemma ObjectId_of_str_str [simp]: "ObjectId_of_str (ObjectId_str oid) = Inr oid"
proof -
  let ?ds = "hex_digits 24 (unat oid)"
  have "unat oid < 2 ^ 96"
    using unsigned_less [of oid] by simp
  then have "unat oid mod 16 ^ 24 = unat oid"
    by simp
  then have b: "from_hex_digits ?ds = unat oid"
    by (simp only: from_hex_digits_hex_digits)
  have a: "those (map hex_value (map hex_char ?ds)) = Some ?ds"
    by (rule those_hex_value) (blast dest: hex_digits_bound)
  have c: "length (map hex_char ?ds) = 24"
    by (simp only: length_map length_hex_digits)
  show ?thesis
    unfolding ObjectId_of_str_def ObjectId_str_def
    by (simp only: a b c option.case of_nat_unat ucast_id) simp
qed

lemma ObjectId_is_valid_str [simp]: "ObjectId_is_valid (ObjectId_str oid)"
proof -
  have "length (ObjectId_str oid) = 24"
    by (simp add: ObjectId_str_def del: hex_digits_numeral)
  then have "ObjectId_str oid \<noteq> []"
    by auto
  then show ?thesis
    by (simp add: ObjectId_is_valid_def)
qed

lemma ObjectId_is_valid_iff: "ObjectId_is_valid s \<longleftrightarrow> (\<exists>oid. ObjectId_of_str s = Inr oid)"
  by (auto simp: ObjectId_is_valid_def ObjectId_of_str_def split: sum.splits)

subsection \<open>The store's operations\<close>

lemma matches_id_query [simp]: "matches (id_query v) d \<longleftrightarrow> get_field d ''_id'' = v"
  by (simp add: matches_def id_query_def)

lemma collection_find_one_Nil [simp]: "collection_find_one q [] = None"
  by (simp add: collection_find_one_def collection_find_def)

lemma collection_find_one_Cons [simp]:
  "collection_find_one q (d # ds) = (if matches q d then Some d else collection_find_one q ds)"
  by (simp add: collection_find_one_def collection_find_def)

lemma collection_find_one_append:
  "collection_find_one q (xs @ ys) =
     (case collection_find_one q xs of Some d \<Rightarrow> Some d | None \<Rightarrow> collection_find_one q ys)"
  by (induction xs) simp_all

lemma collection_find_one_None_iff:
  "collection_find_one q coll = None \<longleftrightarrow> (\<forall>d\<in>set coll. \<not> matches q d)"
  by (induction coll) simp_all

lemma collection_find_one_SomeD:
  "collection_find_one q coll = Some d \<Longrightarrow> d \<in> set coll \<and> matches q d"
  by (induction coll) (auto split: if_splits)

lemma update_one_fst:
  "fst (collection_update_one q f coll) =
     (case collection_find_one q coll of
        None \<Rightarrow> 0
      | Some d \<Rightarrow> if set_fields f d \<noteq> d then 1 else 0)"
  by (induction coll) simp_all

lemma update_one_unchanged:
  "fst (collection_update_one q f coll) = 0 \<Longrightarrow> snd (collection_update_one q f coll) = coll"
  by (induction coll) (auto split: if_splits)

lemma update_one_find_same:
  assumes "\<And>d. matches q (set_fields f d) = matches q d"
  shows "collection_find_one q (snd (collection_update_one q f coll)) =
           map_option (set_fields f) (collection_find_one q coll)"
  using assms by (induction coll) simp_all

lemma update_one_find_other:
  assumes "\<And>d. matches q' (set_fields f d) = matches q' d"
    and "\<And>d. matches q d \<Longrightarrow> \<not> matches q' d"
  shows "collection_find_one q' (snd (collection_update_one q f coll)) = collection_find_one q' coll"
  using assms by (induction coll) simp_all

lemma update_one_map_field:
  assumes "\<And>d. get_field (set_fields f d) k = get_field d k"
  shows "map (\<lambda>d. get_field d k) (snd (collection_update_one q f coll)) = map (\<lambda>d. get_field d k) coll"
  using assms by (induction coll) simp_all

lemma update_one_list_all:
  assumes "list_all P coll" and "\<And>d. P d \<Longrightarrow> matches q d \<Longrightarrow> P (set_fields f d)"
  shows "list_all P (snd (collection_update_one q f coll))"
  using assms by (induction coll) simp_all




lemma delete_one_subset: "set (snd (collection_delete_one q coll)) \<subseteq> set coll"
  by (induction coll) auto

lemma delete_one_list_all:
  "list_all P coll \<Longrightarrow> list_all P (snd (collection_delete_one q coll))"
  by (induction coll) simp_all

lemma delete_one_map_subset:
  "set (map g (snd (collection_delete_one q coll))) \<subseteq> set (map g coll)"
  using delete_one_subset [of q coll] by auto

lemma delete_one_distinct:
  "distinct (map g coll) \<Longrightarrow> distinct (map g (snd (collection_delete_one q coll)))"
proof (induction coll)
  case Nil
  then show ?case by simp
next
  case (Cons d ds)
  show ?case
  proof (cases "matches q d")
    case True
    with Cons.prems show ?thesis by simp
  next
    case False
    have "g d \<notin> set (map g (snd (collection_delete_one q ds)))"
      using Cons.prems delete_one_map_subset [of g q ds] by auto
    with False Cons show ?thesis by simp
  qed
qed

lemma delete_one_find_gone:
  "distinct (map (\<lambda>d. get_field d ''_id'') coll) \<Longrightarrow>
     collection_find_one (id_query v) (snd (collection_delete_one (id_query v) coll)) = None"
proof (induction coll)
  case Nil
  then show ?case by simp
next
  case (Cons d ds)
  show ?case
  proof (cases "get_field d ''_id'' = v")
    case True
    with Cons.prems have "\<forall>x\<in>set ds. get_field x ''_id'' \<noteq> v"
      by (auto simp: image_iff)
    with True show ?thesis
      by (simp add: collection_find_one_None_iff)
  next
    case False
    with Cons show ?thesis by simp
  qed
qed

lemma delete_one_find_other:
  "v' \<noteq> v \<Longrightarrow>
     collection_find_one (id_query v') (snd (collection_delete_one (id_query v) coll)) =
       collection_find_one (id_query v') coll"
  by (induction coll) auto


section \<open>Malformed identifiers\<close>




section \<open>Deleting\<close>




section \<open>Creating and fetching\<close>

subsection \<open>Validation of stored documents\<close>

lemma try_bind_eq_Inr: "try_bind m f = Inr y \<longleftrightarrow> (\<exists>x. m = Inr x \<and> f x = Inr y)"
  by (cases m) simp_all

lemma TodoStatus_of_value_value [simp]: "TodoStatus_of_value (TodoStatus_value s) = Some s"
  by (cases s) (simp_all add: TodoStatus_of_value_def)

lemma TodoPriority_of_value_value [simp]: "TodoPriority_of_value (TodoPriority_value p) = Some p"
  by (cases p) (simp_all add: TodoPriority_of_value_def)

lemma TodoStatus_value_inject [simp]: "TodoStatus_value a = TodoStatus_value b \<longleftrightarrow> a = b"
  by (cases a; cases b) simp_all

lemma TodoPriority_value_inject [simp]: "TodoPriority_value a = TodoPriority_value b \<longleftrightarrow> a = b"
  by (cases a; cases b) simp_all


lemma TodoPriority_of_value_Some: "TodoPriority_of_value s = Some x \<Longrightarrow> s = TodoPriority_value x"
  by (auto simp: TodoPriority_of_value_def split: if_splits)

lemma TodoInDB_of_document_eq_Inr:
  "TodoInDB_of_document d = Inr t \<longleftrightarrow>
     validate_title (map_of d ''title'') = Inr (TodoBase.title t) \<and>
     validate_description (map_of d ''description'') = Inr (TodoBase.description t) \<and>
     validate_status (map_of d ''status'') = Inr (TodoBase.status t) \<and>
     validate_priority (map_of d ''priority'') = Inr (TodoBase.priority t) \<and>
     validate_due_date (map_of d ''due_date'') = Inr (TodoBase.due_date t) \<and>
     PyObjectId_validate (map_of d ''_id'') = Inr (TodoInDB.id' t) \<and>
     validate_datetime (map_of d ''created_at'') = Inr (TodoInDB.created_at t) \<and>
     validate_datetime (map_of d ''updated_at'') = Inr (TodoInDB.updated_at t)"
  by (cases t) (auto simp: TodoInDB_of_document_def try_bind_eq_Inr)

lemma TodoInDB_of_document_cong:
  assumes "\<And>k. k \<in> {''title'', ''description'', ''status'', ''priority'', ''due_date'', ''_id'',
              ''created_at'', ''updated_at''} \<Longrightarrow> map_of d k = map_of d' k"
  shows "TodoInDB_of_document d = TodoInDB_of_document d'"
  using assms by (simp add: TodoInDB_of_document_def)

lemma create_dict_update:
  "dict_update (TodoCreate_dict td) [(''created_at'', BDate now), (''updated_at'', BDate now)] =
     TodoCreate_dict td @ [(''created_at'', BDate now), (''updated_at'', BDate now)]"
  by (simp add: dict_update_def TodoCreate_dict_def)

lemma get_field_stored_document_id [simp]:
  "get_field (stored_document now new_id td) ''_id'' = BObjectId new_id"
  by (simp add: get_field_def stored_document_def)

lemma list_ex_id_iff:
  "list_ex (\<lambda>d. get_field d ''_id'' = v) coll \<longleftrightarrow> collection_find_one (id_query v) coll \<noteq> None"
  by (induction coll) simp_all

lemma create_todo_fresh:
  assumes "\<not> list_ex (\<lambda>d. get_field d ''_id'' = BObjectId new_id) coll"
  shows "TodoRepository_create_todo now new_id td coll =
           (TodoInDB_of_document (stored_document now new_id td),
            coll @ [stored_document now new_id td])"
proof -
  let ?doc = "stored_document now new_id td"
  have no_id: "map_of (TodoCreate_dict td @ [(''created_at'', BDate now), (''updated_at'', BDate now)]) ''_id'' = None"
    by (simp add: TodoCreate_dict_def)
  have ins: "collection_insert_one new_id
               (TodoCreate_dict td @ [(''created_at'', BDate now), (''updated_at'', BDate now)]) coll
             = (Inr (BObjectId new_id), coll @ [?doc])"
    unfolding collection_insert_one_def Let_def
    using assms no_id by (simp add: stored_document_def get_field_def)
  have "collection_find_one (id_query (BObjectId new_id)) coll = None"
    using assms by (simp add: list_ex_id_iff)
  then have found: "collection_find_one (id_query (BObjectId new_id)) (coll @ [?doc]) = Some ?doc"
    by (simp add: collection_find_one_append)
  show ?thesis
    unfolding TodoRepository_create_todo_def Let_def create_dict_update
    by (simp add: ins found)
qed

lemma create_todo_duplicate:
  assumes "list_ex (\<lambda>d. get_field d ''_id'' = BObjectId new_id) coll"
  shows "TodoRepository_create_todo now new_id td coll = (Inl DuplicateKeyError, coll)"
proof -
  have no_id: "map_of (TodoCreate_dict td @ [(''created_at'', BDate now), (''updated_at'', BDate now)]) ''_id'' = None"
    by (simp add: TodoCreate_dict_def)
  have ins: "collection_insert_one new_id
               (TodoCreate_dict td @ [(''created_at'', BDate now), (''updated_at'', BDate now)]) coll
             = (Inl DuplicateKeyError, coll)"
    unfolding collection_insert_one_def Let_def
    using assms no_id by (simp add: get_field_def)
  show ?thesis
    unfolding TodoRepository_create_todo_def Let_def create_dict_update
    by (simp add: ins)
qed

lemma stored_document_parse:
  assumes "TodoCreate_valid td"
  shows "TodoInDB_of_document (stored_document now new_id td) =
           Inr \<lparr> TodoBase.title = TodoBase.title td, TodoBase.description = TodoBase.description td,
                 TodoBase.status = TodoBase.status td, TodoBase.priority = TodoBase.priority td,
                 TodoBase.due_date = TodoBase.due_date td,
                 TodoInDB.id' = new_id, TodoInDB.created_at = now, TodoInDB.updated_at = now \<rparr>"
  using assms
  by (auto simp: TodoInDB_of_document_eq_Inr stored_document_def TodoCreate_dict_def
      TodoCreate_valid_def opt_str_def opt_date_def split: option.splits)

subsection \<open>Reading by identifier\<close>

lemma get_field_Nil [simp]: "get_field [] k = BNull"
  by (simp add: get_field_def)

lemma get_todo_by_id_found:
  assumes "ObjectId_of_str todo_id = Inr oid"
    and "collection_find_one (id_query (BObjectId oid)) coll = Some d"
  shows "TodoRepository_get_todo_by_id todo_id coll =
           try_bind (TodoInDB_of_document d) (\<lambda>t. Inr (Some t))"
proof -
  have "ObjectId_is_valid todo_id"
    using assms(1) by (auto simp: ObjectId_is_valid_iff)
  moreover have "get_field d ''_id'' = BObjectId oid"
    using collection_find_one_SomeD [OF assms(2)] by simp
  then have "d \<noteq> []"
    by auto
  ultimately show ?thesis
    using assms by (simp add: TodoRepository_get_todo_by_id_def)
qed

lemma get_todo_by_id_absent:
  assumes "ObjectId_of_str todo_id = Inr oid"
    and "collection_find_one (id_query (BObjectId oid)) coll = None"
  shows "TodoRepository_get_todo_by_id todo_id coll = Inr None"
proof -
  have "ObjectId_is_valid todo_id"
    using assms(1) by (auto simp: ObjectId_is_valid_iff)
  then show ?thesis
    using assms by (simp add: TodoRepository_get_todo_by_id_def)
qed

text \<open>
  Claim C1.  For every valid creation input and every generated identifier that is not yet
  in the collection, \<open>create_todo\<close> succeeds, and fetching by the returned identifier
  yields a record equal to the returned one in all fields, at the repository and at the
  service.  In the record that \<open>create_todo\<close> returns \<open>created_at\<close> equals
  \<open>updated_at\<close>; both are the instant of the call, and the other fields are those of
  the input.
\<close>

theorem create_then_get:
  assumes "TodoCreate_valid todo_data"
    and "\<not> list_ex (\<lambda>d. get_field d ''_id'' = BObjectId new_id) coll"
  shows "\<exists>t r coll'.
           TodoRepository_create_todo now new_id todo_data coll = (Inr t, coll')
         \<and> TodoRepository_get_todo_by_id (ObjectId_str (TodoInDB.id' t)) coll' = Inr (Some t)
         \<and> TodoInDB.created_at t = TodoInDB.updated_at t
         \<and> TodoService_create_todo now new_id todo_data coll = (Inr r, coll')
         \<and> TodoService_get_todo (TodoResponse.id' r) coll' = Inr (Some r)
         \<and> TodoResponse.created_at r = TodoResponse.updated_at r
         \<and> TodoResponse.created_at r = now
         \<and> TodoBase.title r = TodoBase.title todo_data
         \<and> TodoBase.description r = TodoBase.description todo_data
         \<and> TodoBase.status r = TodoBase.status todo_data
         \<and> TodoBase.priority r = TodoBase.priority todo_data
         \<and> TodoBase.due_date r = TodoBase.due_date todo_data"
proof -
  let ?doc = "stored_document now new_id todo_data"
  let ?coll' = "coll @ [?doc]"
  let ?t = "\<lparr> TodoBase.title = TodoBase.title todo_data,
               TodoBase.description = TodoBase.description todo_data,
               TodoBase.status = TodoBase.status todo_data,
               TodoBase.priority = TodoBase.priority todo_data,
               TodoBase.due_date = TodoBase.due_date todo_data,
               TodoInDB.id' = new_id, TodoInDB.created_at = now, TodoInDB.updated_at = now \<rparr>"
  have parse: "TodoInDB_of_document ?doc = Inr ?t"
    using assms(1) by (rule stored_document_parse)
  have create: "TodoRepository_create_todo now new_id todo_data coll = (Inr ?t, ?coll')"
    using create_todo_fresh [OF assms(2), of now todo_data] parse by simp
  have "collection_find_one (id_query (BObjectId new_id)) coll = None"
    using assms(2) by (simp add: list_ex_id_iff)
  then have found: "collection_find_one (id_query (BObjectId new_id)) ?coll' = Some ?doc"
    by (simp add: collection_find_one_append)
  have get: "TodoRepository_get_todo_by_id (ObjectId_str new_id) ?coll' = Inr (Some ?t)"
    using get_todo_by_id_found [OF ObjectId_of_str_str found] parse by simp
  have screate: "TodoService_create_todo now new_id todo_data coll = (Inr (convert_to_response ?t), ?coll')"
    using create by (simp add: TodoService_create_todo_def)
  have sid: "TodoResponse.id' (convert_to_response ?t) = ObjectId_str new_id"
    by (simp add: convert_to_response_def)
  have sget: "TodoService_get_todo (TodoResponse.id' (convert_to_response ?t)) ?coll'
                = Inr (Some (convert_to_response ?t))"
    unfolding sid using get by (simp add: TodoService_get_todo_def)
  have fields: "TodoResponse.created_at (convert_to_response ?t) = TodoResponse.updated_at (convert_to_response ?t)
      \<and> TodoResponse.created_at (convert_to_response ?t) = now
      \<and> TodoBase.title (convert_to_response ?t) = TodoBase.title todo_data
      \<and> TodoBase.description (convert_to_response ?t) = TodoBase.description todo_data
      \<and> TodoBase.status (convert_to_response ?t) = TodoBase.status todo_data
      \<and> TodoBase.priority (convert_to_response ?t) = TodoBase.priority todo_data
      \<and> TodoBase.due_date (convert_to_response ?t) = TodoBase.due_date todo_data"
    by (simp add: convert_to_response_def)
  have rget: "TodoRepository_get_todo_by_id (ObjectId_str (TodoInDB.id' ?t)) ?coll' = Inr (Some ?t)"
    using get by simp
  have rts: "TodoInDB.created_at ?t = TodoInDB.updated_at ?t"
    by simp
  show ?thesis
    using create rget rts screate sget fields by blast
qed

theorem create_then_get_witness:
  "TodoCreate_valid \<lparr> TodoBase.title = ''buy milk'', description = Some ''two litres'',
       status = PENDING, priority = HIGH, due_date = Some 90 \<rparr>
   \<and> \<not> list_ex (\<lambda>d. get_field d ''_id'' = BObjectId 2) [[(''_id'', BObjectId 1)]]
   \<and> (\<exists>t r coll'.
        TodoRepository_create_todo 5 2 \<lparr> TodoBase.title = ''buy milk'', description = Some ''two litres'',
           status = PENDING, priority = HIGH, due_date = Some 90 \<rparr> [[(''_id'', BObjectId 1)]] = (Inr t, coll')
      \<and> TodoRepository_get_todo_by_id (ObjectId_str (TodoInDB.id' t)) coll' = Inr (Some t)
      \<and> TodoInDB.created_at t = TodoInDB.updated_at t
      \<and> TodoService_create_todo 5 2 \<lparr> TodoBase.title = ''buy milk'', description = Some ''two litres'',
           status = PENDING, priority = HIGH, due_date = Some 90 \<rparr> [[(''_id'', BObjectId 1)]] = (Inr r, coll')
      \<and> TodoService_get_todo (TodoResponse.id' r) coll' = Inr (Some r)
      \<and> TodoResponse.created_at r = TodoResponse.updated_at r
      \<and> TodoResponse.created_at r = 5
      \<and> TodoBase.title r = ''buy milk''
      \<and> TodoBase.description r = Some ''two litres''
      \<and> TodoBase.status r = PENDING
      \<and> TodoBase.priority r = HIGH
      \<and> TodoBase.due_date r = Some 90)"
proof -
  let ?td = "\<lparr> TodoBase.title = ''buy milk'', description = Some ''two litres'',
       status = PENDING, priority = HIGH, due_date = Some 90 \<rparr>"
  have v: "TodoCreate_valid ?td"
    by (simp add: TodoCreate_valid_def)
  have f: "\<not> list_ex (\<lambda>d. get_field d ''_id'' = BObjectId 2) [[(''_id'', BObjectId 1)]]"
    by (simp add: get_field_def)
  show ?thesis
    using v f create_then_get [OF v f, of 5] by simp
qed

section \<open>Updating\<close>

subsection \<open>The fields an update sets\<close>

lemma map_of_dict_update:
  "map_of (dict_update d f) k = (case map_of (rev f) k of Some v \<Rightarrow> Some v | None \<Rightarrow> map_of d k)"
proof (induction f arbitrary: d)
  case Nil
  show ?case by (simp add: dict_update_def)
next
  case (Cons kv f)
  obtain k' v' where kv: "kv = (k', v')"
    by (cases kv)
  have "dict_update d (kv # f) = dict_update (AList.update k' v' d) f"
    by (simp add: dict_update_def kv)
  then show ?case
    by (simp add: Cons.IH kv update_conv' map_add_def split: option.splits)
qed

lemma map_of_rev_distinct: "distinct (map fst xs) \<Longrightarrow> map_of (rev xs) = map_of xs"
proof (induction xs)
  case Nil
  show ?case by simp
next
  case (Cons kv xs)
  obtain k v where kv: "kv = (k, v)"
    by (cases kv)
  from Cons.prems kv have "map_of xs k = None"
    by (simp add: map_of_eq_None_iff)
  with Cons kv show ?case
    by (auto simp: map_add_def fun_eq_iff split: option.splits)
qed

lemma map_of_filter_distinct:
  "distinct (map fst xs) \<Longrightarrow>
     map_of (filter P xs) k =
       (case map_of xs k of None \<Rightarrow> None | Some v \<Rightarrow> if P (k, v) then Some v else None)"
proof (induction xs)
  case Nil
  show ?case by simp
next
  case (Cons kv xs)
  obtain k' v' where kv: "kv = (k', v')"
    by (cases kv)
  from Cons.prems kv have none: "map_of xs k' = None"
    by (simp add: map_of_eq_None_iff)
  from Cons kv none show ?case
    by (auto split: option.splits)
qed

lemma distinct_TodoUpdate_dict [simp]: "distinct (map fst (TodoUpdate_dict u))"
  by (simp add: TodoUpdate_dict_def)

lemma distinct_update_data_of [simp]: "distinct (map fst (update_data_of u))"
  unfolding update_data_of_def by (rule distinct_map_filter) simp

lemma map_of_update_data_of:
  "map_of (update_data_of u) k =
     (case map_of (TodoUpdate_dict u) k of
        None \<Rightarrow> None
      | Some v \<Rightarrow> if v \<noteq> BNull then Some v else None)"
  by (simp add: update_data_of_def map_of_filter_distinct split: option.splits)

lemma update_data_title [simp]:
  "map_of (update_data_of u) ''title'' = map_option BString (TodoUpdate.title u)"
  by (simp add: map_of_update_data_of TodoUpdate_dict_def opt_str_def split: option.splits)

lemma update_data_description [simp]:
  "map_of (update_data_of u) ''description'' = map_option BString (TodoUpdate.description u)"
  by (simp add: map_of_update_data_of TodoUpdate_dict_def opt_str_def split: option.splits)

lemma update_data_status [simp]:
  "map_of (update_data_of u) ''status'' =
     map_option (\<lambda>s. BString (TodoStatus_value s)) (TodoUpdate.status u)"
  by (simp add: map_of_update_data_of TodoUpdate_dict_def opt_str_def split: option.splits)

lemma update_data_priority [simp]:
  "map_of (update_data_of u) ''priority'' =
     map_option (\<lambda>p. BString (TodoPriority_value p)) (TodoUpdate.priority u)"
  by (simp add: map_of_update_data_of TodoUpdate_dict_def opt_str_def split: option.splits)

lemma update_data_due_date [simp]:
  "map_of (update_data_of u) ''due_date'' = map_option BDate (TodoUpdate.due_date u)"
  by (simp add: map_of_update_data_of TodoUpdate_dict_def opt_date_def split: option.splits)

lemma update_data_other:
  "k \<notin> {''title'', ''description'', ''status'', ''priority'', ''due_date''} \<Longrightarrow>
     map_of (update_data_of u) k = None"
  by (simp add: map_of_update_data_of TodoUpdate_dict_def)

lemma update_data_of_empty_iff:
  "update_data_of u = [] \<longleftrightarrow>
     TodoUpdate.title u = None \<and> TodoUpdate.description u = None \<and> TodoUpdate.status u = None
     \<and> TodoUpdate.priority u = None \<and> TodoUpdate.due_date u = None"
  by (simp add: update_data_of_def TodoUpdate_dict_def opt_str_def opt_date_def
      split: option.splits)

lemma map_of_update_set:
  "map_of (set_fields (AList.update ''updated_at'' (BDate now) (update_data_of u)) d) k =
     (if k = ''updated_at'' then Some (BDate now)
      else (case map_of (update_data_of u) k of Some v \<Rightarrow> Some v | None \<Rightarrow> map_of d k))"
proof -
  have "distinct (map fst (AList.update ''updated_at'' (BDate now) (update_data_of u)))"
    by (simp add: distinct_update)
  then show ?thesis
    by (simp add: set_fields_def map_of_dict_update map_of_rev_distinct update_conv')
qed

subsection \<open>The result of \<open>update_todo\<close>\<close>

lemma get_field_update_set_id [simp]:
  "get_field (set_fields (AList.update ''updated_at'' (BDate now) (update_data_of u)) d) ''_id''
     = get_field d ''_id''"
  by (simp add: get_field_def map_of_update_set update_data_other)

lemma parse_update_set:
  assumes "TodoInDB_of_document d = Inr t" and "TodoUpdate_valid u"
  shows "TodoInDB_of_document (set_fields (AList.update ''updated_at'' (BDate now) (update_data_of u)) d) =
     Inr \<lparr> TodoBase.title = (case TodoUpdate.title u of None \<Rightarrow> TodoBase.title t | Some x \<Rightarrow> x),
           TodoBase.description =
             (case TodoUpdate.description u of None \<Rightarrow> TodoBase.description t | Some x \<Rightarrow> Some x),
           TodoBase.status = (case TodoUpdate.status u of None \<Rightarrow> TodoBase.status t | Some x \<Rightarrow> x),
           TodoBase.priority =
             (case TodoUpdate.priority u of None \<Rightarrow> TodoBase.priority t | Some x \<Rightarrow> x),
           TodoBase.due_date =
             (case TodoUpdate.due_date u of None \<Rightarrow> TodoBase.due_date t | Some x \<Rightarrow> Some x),
           TodoInDB.id' = TodoInDB.id' t,
           TodoInDB.created_at = TodoInDB.created_at t,
           TodoInDB.updated_at = now \<rparr>"
proof -
  let ?d' = "set_fields (AList.update ''updated_at'' (BDate now) (update_data_of u)) d"
  note old = assms(1) [unfolded TodoInDB_of_document_eq_Inr]
  have t1: "validate_title (map_of ?d' ''title'') =
      Inr (case TodoUpdate.title u of None \<Rightarrow> TodoBase.title t | Some x \<Rightarrow> x)"
    using old assms(2)
    by (cases "TodoUpdate.title u") (simp_all add: map_of_update_set TodoUpdate_valid_def)
  have t2: "validate_description (map_of ?d' ''description'') =
      Inr (case TodoUpdate.description u of None \<Rightarrow> TodoBase.description t | Some x \<Rightarrow> Some x)"
    using old assms(2)
    by (cases "TodoUpdate.description u") (simp_all add: map_of_update_set TodoUpdate_valid_def)
  have t3: "validate_status (map_of ?d' ''status'') =
      Inr (case TodoUpdate.status u of None \<Rightarrow> TodoBase.status t | Some x \<Rightarrow> x)"
    using old
    by (cases "TodoUpdate.status u") (simp_all add: map_of_update_set)
  have t4: "validate_priority (map_of ?d' ''priority'') =
      Inr (case TodoUpdate.priority u of None \<Rightarrow> TodoBase.priority t | Some x \<Rightarrow> x)"
    using old
    by (cases "TodoUpdate.priority u") (simp_all add: map_of_update_set)
  have t5: "validate_due_date (map_of ?d' ''due_date'') =
      Inr (case TodoUpdate.due_date u of None \<Rightarrow> TodoBase.due_date t | Some x \<Rightarrow> Some x)"
    using old
    by (cases "TodoUpdate.due_date u") (simp_all add: map_of_update_set)
  have t6: "PyObjectId_validate (map_of ?d' ''_id'') = Inr (TodoInDB.id' t)"
    using old by (simp add: map_of_update_set update_data_other)
  have t7: "validate_datetime (map_of ?d' ''created_at'') = Inr (TodoInDB.created_at t)"
    using old by (simp add: map_of_update_set update_data_other)
  have t8: "validate_datetime (map_of ?d' ''updated_at'') = Inr now"
    by (simp add: map_of_update_set)
  show ?thesis
    unfolding TodoInDB_of_document_eq_Inr
    using t1 t2 t3 t4 t5 t6 t7 t8 by simp
qed

lemma update_set_changes:
  assumes "TodoInDB_of_document d = Inr t" and "TodoInDB.updated_at t \<noteq> now"
  shows "set_fields (AList.update ''updated_at'' (BDate now) (update_data_of u)) d \<noteq> d"
proof
  assume same: "set_fields (AList.update ''updated_at'' (BDate now) (update_data_of u)) d = d"
  have "map_of (set_fields (AList.update ''updated_at'' (BDate now) (update_data_of u)) d) ''updated_at''
          = Some (BDate now)"
    by (simp add: map_of_update_set)
  with same have "map_of d ''updated_at'' = Some (BDate now)"
    by simp
  moreover have "validate_datetime (map_of d ''updated_at'') = Inr (TodoInDB.updated_at t)"
    using assms(1) by (simp add: TodoInDB_of_document_eq_Inr)
  ultimately show False
    using assms(2) by simp
qed

lemma get_todo_by_id_SomeD:
  assumes "TodoRepository_get_todo_by_id todo_id coll = Inr (Some t)"
  shows "\<exists>oid d. ObjectId_of_str todo_id = Inr oid
           \<and> collection_find_one (id_query (BObjectId oid)) coll = Some d
           \<and> TodoInDB_of_document d = Inr t"
proof -
  have valid: "ObjectId_is_valid todo_id"
    using assms by (auto simp: TodoRepository_get_todo_by_id_def split: if_splits)
  then obtain oid where oid: "ObjectId_of_str todo_id = Inr oid"
    by (auto simp: ObjectId_is_valid_iff)
  show ?thesis
  proof (cases "collection_find_one (id_query (BObjectId oid)) coll")
    case None
    with assms oid show ?thesis
      by (simp add: get_todo_by_id_absent)
  next
    case (Some d)
    with assms oid have "try_bind (TodoInDB_of_document d) (\<lambda>t. Inr (Some t)) = Inr (Some t)"
      by (simp add: get_todo_by_id_found)
    then have "TodoInDB_of_document d = Inr t"
      by (auto simp: try_bind_eq_Inr)
    with oid Some show ?thesis
      by blast
  qed
qed

lemma update_todo_empty:
  assumes "update_data_of u = []"
  shows "TodoRepository_update_todo now todo_id u coll = (TodoRepository_get_todo_by_id todo_id coll, coll)"
  using assms
  by (simp add: TodoRepository_update_todo_def TodoRepository_get_todo_by_id_def)

lemma update_todo_absent:
  assumes "ObjectId_of_str todo_id = Inr oid"
    and "collection_find_one (id_query (BObjectId oid)) coll = None"
    and "update_data_of u \<noteq> []"
  shows "TodoRepository_update_todo now todo_id u coll = (Inr None, coll)"
proof -
  let ?f = "AList.update ''updated_at'' (BDate now) (update_data_of u)"
  let ?q = "id_query (BObjectId oid)"
  have valid: "ObjectId_is_valid todo_id"
    using assms(1) by (auto simp: ObjectId_is_valid_iff)
  have "fst (collection_update_one ?q ?f coll) = 0"
    using assms(2) by (simp add: update_one_fst)
  moreover from this have "snd (collection_update_one ?q ?f coll) = coll"
    by (rule update_one_unchanged)
  ultimately have "collection_update_one ?q ?f coll = (0, coll)"
    by (simp add: prod_eq_iff)
  then show ?thesis
    using valid assms by (simp add: TodoRepository_update_todo_def)
qed

lemma update_todo_found:
  assumes "ObjectId_of_str todo_id = Inr oid"
    and "collection_find_one (id_query (BObjectId oid)) coll = Some d"
    and "update_data_of u \<noteq> []"
  shows "\<exists>coll'. TodoRepository_update_todo now todo_id u coll =
           ((if set_fields (AList.update ''updated_at'' (BDate now) (update_data_of u)) d \<noteq> d
             then try_bind (TodoInDB_of_document
                    (set_fields (AList.update ''updated_at'' (BDate now) (update_data_of u)) d))
                    (\<lambda>t. Inr (Some t))
             else Inr None), coll')
         \<and> collection_find_one (id_query (BObjectId oid)) coll' =
             Some (set_fields (AList.update ''updated_at'' (BDate now) (update_data_of u)) d)
         \<and> length coll' = length coll
         \<and> map (\<lambda>d. get_field d ''_id'') coll' = map (\<lambda>d. get_field d ''_id'') coll
         \<and> (\<forall>v. v \<noteq> BObjectId oid \<longrightarrow>
               collection_find_one (id_query v) coll' = collection_find_one (id_query v) coll)"
proof -
  let ?f = "AList.update ''updated_at'' (BDate now) (update_data_of u)"
  let ?q = "id_query (BObjectId oid)"
  obtain mc coll' where upd: "collection_update_one ?q ?f coll = (mc, coll')"
    by (cases "collection_update_one ?q ?f coll")
  have valid: "ObjectId_is_valid todo_id"
    using assms(1) by (auto simp: ObjectId_is_valid_iff)
  have cnt: "mc = (if set_fields ?f d \<noteq> d then 1 else 0)"
    using update_one_fst [of ?q ?f coll] assms(2) upd by simp
  have found: "collection_find_one ?q coll' = Some (set_fields ?f d)"
    using update_one_find_same [of ?q ?f coll] assms(2) upd by simp
  have ids: "map (\<lambda>d. get_field d ''_id'') coll' = map (\<lambda>d. get_field d ''_id'') coll"
    using update_one_map_field [of ?f "''_id''" ?q coll] upd by simp
  then have len: "length coll' = length coll"
    using map_eq_imp_length_eq by blast
  have other: "collection_find_one (id_query v) coll' = collection_find_one (id_query v) coll"
    if "v \<noteq> BObjectId oid" for v
    using update_one_find_other [of "id_query v" ?f ?q coll] that upd by simp
  have res: "TodoRepository_update_todo now todo_id u coll =
      ((if set_fields ?f d \<noteq> d
        then try_bind (TodoInDB_of_document (set_fields ?f d)) (\<lambda>t. Inr (Some t))
        else Inr None), coll')"
    unfolding TodoRepository_update_todo_def Let_def
    using valid assms(1,3) get_todo_by_id_found [OF assms(1) found] cnt
    by (simp add: upd)
  show ?thesis
    using res found len ids other by blast
qed

text \<open>
  Claim C2.  For a stored todo and a valid partial update with at least one field
  populated, run at an instant after the record's \<open>updated_at\<close>: \<open>update_todo\<close>
  returns the updated record, which is also what \<open>get_todo_by_id\<close> reads afterwards.
  Each of \<open>title\<close>, \<open>description\<close>, \<open>status\<close>, \<open>priority\<close> and
  \<open>due_date\<close> has the supplied value when one is supplied and its old value
  otherwise; the identifier and \<open>created_at\<close> are unchanged; \<open>updated_at\<close> is the
  instant of the call, strictly later than before.  No other document changes.
\<close>

theorem update_changes_exactly_supplied_fields:
  assumes "ObjectId_of_str todo_id = Inr oid"
    and "collection_find_one (id_query (BObjectId oid)) coll = Some d"
    and "TodoInDB_of_document d = Inr t"
    and "TodoUpdate_valid u"
    and "TodoUpdate.title u \<noteq> None \<or> TodoUpdate.description u \<noteq> None
         \<or> TodoUpdate.status u \<noteq> None \<or> TodoUpdate.priority u \<noteq> None
         \<or> TodoUpdate.due_date u \<noteq> None"
    and "TodoInDB.updated_at t < now"
  shows "\<exists>t' coll'.
           TodoRepository_update_todo now todo_id u coll = (Inr (Some t'), coll')
         \<and> TodoRepository_get_todo_by_id todo_id coll' = Inr (Some t')
         \<and> TodoBase.title t' = (case TodoUpdate.title u of None \<Rightarrow> TodoBase.title t | Some x \<Rightarrow> x)
         \<and> TodoBase.description t' =
             (case TodoUpdate.description u of None \<Rightarrow> TodoBase.description t | Some x \<Rightarrow> Some x)
         \<and> TodoBase.status t' = (case TodoUpdate.status u of None \<Rightarrow> TodoBase.status t | Some x \<Rightarrow> x)
         \<and> TodoBase.priority t' =
             (case TodoUpdate.priority u of None \<Rightarrow> TodoBase.priority t | Some x \<Rightarrow> x)
         \<and> TodoBase.due_date t' =
             (case TodoUpdate.due_date u of None \<Rightarrow> TodoBase.due_date t | Some x \<Rightarrow> Some x)
         \<and> TodoInDB.id' t' = TodoInDB.id' t
         \<and> TodoInDB.created_at t' = TodoInDB.created_at t
         \<and> TodoInDB.updated_at t' = now
         \<and> TodoInDB.updated_at t < TodoInDB.updated_at t'
         \<and> length coll' = length coll
         \<and> (\<forall>v. v \<noteq> BObjectId oid \<longrightarrow>
               collection_find_one (id_query v) coll' = collection_find_one (id_query v) coll)"
proof -
  let ?d' = "set_fields (AList.update ''updated_at'' (BDate now) (update_data_of u)) d"
  let ?t' = "\<lparr> TodoBase.title = (case TodoUpdate.title u of None \<Rightarrow> TodoBase.title t | Some x \<Rightarrow> x),
           TodoBase.description =
             (case TodoUpdate.description u of None \<Rightarrow> TodoBase.description t | Some x \<Rightarrow> Some x),
           TodoBase.status = (case TodoUpdate.status u of None \<Rightarrow> TodoBase.status t | Some x \<Rightarrow> x),
           TodoBase.priority =
             (case TodoUpdate.priority u of None \<Rightarrow> TodoBase.priority t | Some x \<Rightarrow> x),
           TodoBase.due_date =
             (case TodoUpdate.due_date u of None \<Rightarrow> TodoBase.due_date t | Some x \<Rightarrow> Some x),
           TodoInDB.id' = TodoInDB.id' t,
           TodoInDB.created_at = TodoInDB.created_at t,
           TodoInDB.updated_at = now \<rparr>"
  have nonempty: "update_data_of u \<noteq> []"
    using assms(5) by (simp add: update_data_of_empty_iff)
  have parse: "TodoInDB_of_document ?d' = Inr ?t'"
    using assms(3,4) by (rule parse_update_set)
  have changed: "?d' \<noteq> d"
    using assms(3,6) by (intro update_set_changes) auto
  obtain coll' where res: "TodoRepository_update_todo now todo_id u coll = (Inr (Some ?t'), coll')"
    and found: "collection_find_one (id_query (BObjectId oid)) coll' = Some ?d'"
    and len: "length coll' = length coll"
    and other: "\<forall>v. v \<noteq> BObjectId oid \<longrightarrow>
               collection_find_one (id_query v) coll' = collection_find_one (id_query v) coll"
    using update_todo_found [OF assms(1,2) nonempty, of now] parse changed by auto
  have get: "TodoRepository_get_todo_by_id todo_id coll' = Inr (Some ?t')"
    using get_todo_by_id_found [OF assms(1) found] parse by simp
  have fields: "TodoBase.title ?t' = (case TodoUpdate.title u of None \<Rightarrow> TodoBase.title t | Some x \<Rightarrow> x)
         \<and> TodoBase.description ?t' =
             (case TodoUpdate.description u of None \<Rightarrow> TodoBase.description t | Some x \<Rightarrow> Some x)
         \<and> TodoBase.status ?t' = (case TodoUpdate.status u of None \<Rightarrow> TodoBase.status t | Some x \<Rightarrow> x)
         \<and> TodoBase.priority ?t' =
             (case TodoUpdate.priority u of None \<Rightarrow> TodoBase.priority t | Some x \<Rightarrow> x)
         \<and> TodoBase.due_date ?t' =
             (case TodoUpdate.due_date u of None \<Rightarrow> TodoBase.due_date t | Some x \<Rightarrow> Some x)
         \<and> TodoInDB.id' ?t' = TodoInDB.id' t
         \<and> TodoInDB.created_at ?t' = TodoInDB.created_at t
         \<and> TodoInDB.updated_at ?t' = now
         \<and> TodoInDB.updated_at t < TodoInDB.updated_at ?t'"
    using assms(6) by simp
  show ?thesis
    using res get fields len other by blast
qed

subsection \<open>Examples\<close>

lemma example_id: "ObjectId_of_str ''000000000000000000000001'' = Inr 1"
  by (simp add: ObjectId_of_str_def hex_value_def from_hex_digits_def)

lemma example_find:
  "collection_find_one (id_query (BObjectId 1)) [example_document] = Some example_document"
  by (simp add: example_document_def get_field_def)

lemma example_parse: "TodoInDB_of_document example_document = Inr example_todo"
  by (simp add: TodoInDB_of_document_def example_document_def example_todo_def
      TodoStatus_of_value_def TodoPriority_of_value_def)

theorem update_changes_exactly_supplied_fields_witness:
  "ObjectId_of_str ''000000000000000000000001'' = Inr 1
   \<and> collection_find_one (id_query (BObjectId 1)) [example_document] = Some example_document
   \<and> TodoInDB_of_document example_document = Inr example_todo
   \<and> TodoInDB.updated_at example_todo < 7
   \<and> (\<exists>t' coll'.
         TodoRepository_update_todo 7 ''000000000000000000000001''
           \<lparr> TodoUpdate.title = None, description = None, status = Some COMPLETED,
             priority = None, due_date = None \<rparr> [example_document] = (Inr (Some t'), coll')
       \<and> TodoRepository_get_todo_by_id ''000000000000000000000001'' coll' = Inr (Some t')
       \<and> TodoBase.title t' = ''pay rent''
       \<and> TodoBase.description t' = Some ''by transfer''
       \<and> TodoBase.status t' = COMPLETED
       \<and> TodoBase.priority t' = LOW
       \<and> TodoBase.due_date t' = Some 9
       \<and> TodoInDB.created_at t' = 1
       \<and> TodoInDB.updated_at t' = 7)"
proof -
  let ?u = "\<lparr> TodoUpdate.title = None, description = None, status = Some COMPLETED,
             priority = None, due_date = None \<rparr>"
  have v: "TodoUpdate_valid ?u"
    by (simp add: TodoUpdate_valid_def)
  have p: "TodoUpdate.title ?u \<noteq> None \<or> TodoUpdate.description ?u \<noteq> None
         \<or> TodoUpdate.status ?u \<noteq> None \<or> TodoUpdate.priority ?u \<noteq> None
         \<or> TodoUpdate.due_date ?u \<noteq> None"
    by simp
  have c: "TodoInDB.updated_at example_todo < 7"
    by (simp add: example_todo_def)
  have "\<exists>t' coll'.
         TodoRepository_update_todo 7 ''000000000000000000000001'' ?u [example_document] = (Inr (Some t'), coll')
       \<and> TodoRepository_get_todo_by_id ''000000000000000000000001'' coll' = Inr (Some t')
       \<and> TodoBase.title t' = ''pay rent''
       \<and> TodoBase.description t' = Some ''by transfer''
       \<and> TodoBase.status t' = COMPLETED
       \<and> TodoBase.priority t' = LOW
       \<and> TodoBase.due_date t' = Some 9
       \<and> TodoInDB.created_at t' = 1
       \<and> TodoInDB.updated_at t' = 7"
    using update_changes_exactly_supplied_fields [OF example_id example_find example_parse v p c]
    by (simp add: example_todo_def) blast
  then show ?thesis
    using example_id example_find example_parse c by blast
qed

text \<open>
  Claim C5.  An update with no field populated writes nothing: \<open>update_todo\<close> returns
  the collection as it was (so \<open>updated_at\<close> is not bumped) together with what
  \<open>get_todo_by_id\<close> returns on it, that is the current record of a well-formed
  identifier that a stored todo has, and the absent result when no document has it.
\<close>

theorem empty_update_writes_nothing:
  "TodoRepository_update_todo now todo_id
       \<lparr> TodoUpdate.title = None, description = None, status = None, priority = None,
         due_date = None \<rparr> coll
     = (TodoRepository_get_todo_by_id todo_id coll, coll)
   \<and> TodoService_update_todo now todo_id
       \<lparr> TodoUpdate.title = None, description = None, status = None, priority = None,
         due_date = None \<rparr> coll
     = (TodoService_get_todo todo_id coll, coll)
   \<and> (\<forall>oid d t. ObjectId_of_str todo_id = Inr oid
          \<and> collection_find_one (id_query (BObjectId oid)) coll = Some d
          \<and> TodoInDB_of_document d = Inr t
        \<longrightarrow> TodoRepository_update_todo now todo_id
              \<lparr> TodoUpdate.title = None, description = None, status = None, priority = None,
                due_date = None \<rparr> coll = (Inr (Some t), coll))
   \<and> (\<forall>oid. ObjectId_of_str todo_id = Inr oid
          \<and> collection_find_one (id_query (BObjectId oid)) coll = None
        \<longrightarrow> TodoRepository_update_todo now todo_id
              \<lparr> TodoUpdate.title = None, description = None, status = None, priority = None,
                due_date = None \<rparr> coll = (Inr None, coll))"
proof -
  let ?u = "\<lparr> TodoUpdate.title = None, description = None, status = None, priority = None,
         due_date = None \<rparr>"
  have empty: "update_data_of ?u = []"
    by (simp add: update_data_of_empty_iff)
  have repo: "TodoRepository_update_todo now todo_id ?u coll
                = (TodoRepository_get_todo_by_id todo_id coll, coll)"
    using empty by (rule update_todo_empty)
  have serv: "TodoService_update_todo now todo_id ?u coll = (TodoService_get_todo todo_id coll, coll)"
    by (simp add: TodoService_update_todo_def TodoService_get_todo_def repo)
  have some: "TodoRepository_update_todo now todo_id ?u coll = (Inr (Some t), coll)"
    if "ObjectId_of_str todo_id = Inr oid
          \<and> collection_find_one (id_query (BObjectId oid)) coll = Some d
          \<and> TodoInDB_of_document d = Inr t" for oid d t
    using that repo by (simp add: get_todo_by_id_found)
  have none: "TodoRepository_update_todo now todo_id ?u coll = (Inr None, coll)"
    if "ObjectId_of_str todo_id = Inr oid
          \<and> collection_find_one (id_query (BObjectId oid)) coll = None" for oid
    using that repo by (simp add: get_todo_by_id_absent)
  show ?thesis
    using repo serv some none by blast
qed

theorem empty_update_writes_nothing_witness:
  "TodoRepository_update_todo 7 ''000000000000000000000001''
       \<lparr> TodoUpdate.title = None, description = None, status = None, priority = None,
         due_date = None \<rparr> [example_document]
     = (Inr (Some example_todo), [example_document])
   \<and> TodoInDB.updated_at example_todo = 1
   \<and> TodoRepository_update_todo 7 ''000000000000000000000001''
       \<lparr> TodoUpdate.title = None, description = None, status = None, priority = None,
         due_date = None \<rparr> []
     = (Inr None, [])"
proof -
  let ?u = "\<lparr> TodoUpdate.title = None, description = None, status = None, priority = None,
         due_date = None \<rparr>"
  have absent: "collection_find_one (id_query (BObjectId 1)) [] = None"
    by simp
  have a: "TodoRepository_update_todo 7 ''000000000000000000000001'' ?u [example_document]
             = (Inr (Some example_todo), [example_document])"
    using empty_update_writes_nothing [of 7 "''000000000000000000000001''" "[example_document]"]
      example_id example_find example_parse
    by blast
  have b: "TodoRepository_update_todo 7 ''000000000000000000000001'' ?u [] = (Inr None, [])"
    using empty_update_writes_nothing [of 7 "''000000000000000000000001''" "[]"]
      example_id absent
    by blast
  have c: "TodoInDB.updated_at example_todo = 1"
    by (simp add: example_todo_def)
  show ?thesis
    using a b c by blast
qed

text \<open>
  Claim C10.  For a stored todo and a valid update: a \<open>None\<close> in \<open>description\<close> or
  \<open>due_date\<close> of the update is in \<open>todo_data.dict()\<close> as null but is not in
  \<open>update_data\<close>, and the stored field keeps its value, as if the field had not been
  supplied.  So a description or a due date that is set stays set after every update:
  \<open>update_todo\<close> cannot clear it.
\<close>

theorem update_cannot_clear_optional_fields:
  assumes "TodoRepository_get_todo_by_id todo_id coll = Inr (Some t)"
    and "TodoUpdate_valid u"
  shows "\<exists>t'. TodoRepository_get_todo_by_id todo_id
                 (snd (TodoRepository_update_todo now todo_id u coll)) = Inr (Some t')
         \<and> (TodoUpdate.description u = None \<longrightarrow>
               map_of (TodoUpdate_dict u) ''description'' = Some BNull
             \<and> map_of (update_data_of u) ''description'' = None
             \<and> TodoBase.description t' = TodoBase.description t)
         \<and> (TodoUpdate.due_date u = None \<longrightarrow>
               map_of (TodoUpdate_dict u) ''due_date'' = Some BNull
             \<and> map_of (update_data_of u) ''due_date'' = None
             \<and> TodoBase.due_date t' = TodoBase.due_date t)
         \<and> (TodoBase.description t \<noteq> None \<longrightarrow> TodoBase.description t' \<noteq> None)
         \<and> (TodoBase.due_date t \<noteq> None \<longrightarrow> TodoBase.due_date t' \<noteq> None)"
proof -
  obtain oid d where oid: "ObjectId_of_str todo_id = Inr oid"
    and found: "collection_find_one (id_query (BObjectId oid)) coll = Some d"
    and parse: "TodoInDB_of_document d = Inr t"
    using get_todo_by_id_SomeD [OF assms(1)] by blast
  have dict: "(TodoUpdate.description u = None \<longrightarrow>
               map_of (TodoUpdate_dict u) ''description'' = Some BNull
             \<and> map_of (update_data_of u) ''description'' = None)
         \<and> (TodoUpdate.due_date u = None \<longrightarrow>
               map_of (TodoUpdate_dict u) ''due_date'' = Some BNull
             \<and> map_of (update_data_of u) ''due_date'' = None)"
    by (simp add: TodoUpdate_dict_def opt_str_def opt_date_def)
  show ?thesis
  proof (cases "update_data_of u = []")
    case True
    then have "snd (TodoRepository_update_todo now todo_id u coll) = coll"
      by (simp add: update_todo_empty)
    with assms(1) dict show ?thesis
      by auto
  next
    case False
    let ?d' = "set_fields (AList.update ''updated_at'' (BDate now) (update_data_of u)) d"
    let ?t' = "\<lparr> TodoBase.title = (case TodoUpdate.title u of None \<Rightarrow> TodoBase.title t | Some x \<Rightarrow> x),
           TodoBase.description =
             (case TodoUpdate.description u of None \<Rightarrow> TodoBase.description t | Some x \<Rightarrow> Some x),
           TodoBase.status = (case TodoUpdate.status u of None \<Rightarrow> TodoBase.status t | Some x \<Rightarrow> x),
           TodoBase.priority =
             (case TodoUpdate.priority u of None \<Rightarrow> TodoBase.priority t | Some x \<Rightarrow> x),
           TodoBase.due_date =
             (case TodoUpdate.due_date u of None \<Rightarrow> TodoBase.due_date t | Some x \<Rightarrow> Some x),
           TodoInDB.id' = TodoInDB.id' t,
           TodoInDB.created_at = TodoInDB.created_at t,
           TodoInDB.updated_at = now \<rparr>"
    have parse': "TodoInDB_of_document ?d' = Inr ?t'"
      using parse assms(2) by (rule parse_update_set)
    obtain coll' r where res: "TodoRepository_update_todo now todo_id u coll = (r, coll')"
      and found': "collection_find_one (id_query (BObjectId oid)) coll' = Some ?d'"
      using update_todo_found [OF oid found False, of now] by blast
    have get: "TodoRepository_get_todo_by_id todo_id coll' = Inr (Some ?t')"
      using get_todo_by_id_found [OF oid found'] parse' by simp
    have f1: "TodoUpdate.description u = None \<longrightarrow> TodoBase.description ?t' = TodoBase.description t"
      by simp
    have f2: "TodoUpdate.due_date u = None \<longrightarrow> TodoBase.due_date ?t' = TodoBase.due_date t"
      by simp
    have f3: "TodoBase.description t \<noteq> None \<longrightarrow> TodoBase.description ?t' \<noteq> None"
      by (simp split: option.splits)
    have f4: "TodoBase.due_date t \<noteq> None \<longrightarrow> TodoBase.due_date ?t' \<noteq> None"
      by (simp split: option.splits)
    have get': "TodoRepository_get_todo_by_id todo_id
            (snd (TodoRepository_update_todo now todo_id u coll)) = Inr (Some ?t')"
      using res get by simp
    show ?thesis
    proof (intro exI [of _ ?t'] conjI)
      show "TodoRepository_get_todo_by_id todo_id
            (snd (TodoRepository_update_todo now todo_id u coll)) = Inr (Some ?t')"
        by (rule get')
    qed (use dict f1 f2 f3 f4 in blast)+
  qed
qed

theorem update_cannot_clear_optional_fields_witness:
  "TodoRepository_get_todo_by_id ''000000000000000000000001'' [example_document] = Inr (Some example_todo)
   \<and> TodoBase.description example_todo = Some ''by transfer''
   \<and> TodoBase.due_date example_todo = Some 9
   \<and> (\<exists>t'. TodoRepository_get_todo_by_id ''000000000000000000000001''
                 (snd (TodoRepository_update_todo 7 ''000000000000000000000001''
                   \<lparr> TodoUpdate.title = Some ''pay the rent'', description = None, status = None,
                     priority = None, due_date = None \<rparr> [example_document])) = Inr (Some t')
         \<and> TodoBase.description t' = Some ''by transfer''
         \<and> TodoBase.due_date t' = Some 9)"
proof -
  let ?u = "\<lparr> TodoUpdate.title = Some ''pay the rent'', description = None, status = None,
                     priority = None, due_date = None \<rparr>"
  have g: "TodoRepository_get_todo_by_id ''000000000000000000000001'' [example_document]
             = Inr (Some example_todo)"
    using get_todo_by_id_found [OF example_id example_find] example_parse by simp
  have v: "TodoUpdate_valid ?u"
    by (simp add: TodoUpdate_valid_def)
  have d: "TodoBase.description example_todo = Some ''by transfer''"
    and e: "TodoBase.due_date example_todo = Some 9"
    by (simp_all add: example_todo_def)
  have "\<exists>t'. TodoRepository_get_todo_by_id ''000000000000000000000001''
                 (snd (TodoRepository_update_todo 7 ''000000000000000000000001'' ?u [example_document]))
                 = Inr (Some t')
         \<and> TodoBase.description t' = Some ''by transfer''
         \<and> TodoBase.due_date t' = Some 9"
    using update_cannot_clear_optional_fields [OF g v, of 7] d e
    by simp blast
  then show ?thesis
    using g d e by blast
qed

section \<open>Collections of stored todos\<close>




lemma stored_todo_iff:
  "stored_todo d \<longleftrightarrow>
     (\<exists>t. TodoInDB_of_document d = Inr t
        \<and> get_field d ''_id'' = BObjectId (TodoInDB.id' t)
        \<and> get_field d ''status'' = BString (TodoStatus_value (TodoBase.status t))
        \<and> get_field d ''priority'' = BString (TodoPriority_value (TodoBase.priority t)))"
  by (auto simp: stored_todo_def split: sum.splits)






lemma stored_todo_stored_document:
  assumes "TodoCreate_valid td"
  shows "stored_todo (stored_document now new_id td)"
  unfolding stored_todo_iff
  using stored_document_parse [OF assms, of now new_id]
  by (simp add: get_field_def stored_document_def TodoCreate_dict_def)

lemma update_todo_snd:
  "snd (TodoRepository_update_todo now todo_id u coll) =
     (case ObjectId_of_str todo_id of
        Inl e \<Rightarrow> coll
      | Inr oid \<Rightarrow>
          if update_data_of u = [] then coll
          else snd (collection_update_one (id_query (BObjectId oid))
                 (AList.update ''updated_at'' (BDate now) (update_data_of u)) coll))"
proof (cases "ObjectId_of_str todo_id")
  case (Inl e)
  then have "\<not> ObjectId_is_valid todo_id"
    by (simp add: ObjectId_is_valid_iff)
  with Inl show ?thesis
    by (simp add: TodoRepository_update_todo_def)
next
  case (Inr oid)
  then have "ObjectId_is_valid todo_id"
    by (simp add: ObjectId_is_valid_iff)
  with Inr show ?thesis
    by (simp add: TodoRepository_update_todo_def Let_def split: prod.splits)
qed


lemma stored_todos_create:
  assumes "stored_todos coll" and "TodoCreate_valid td"
  shows "stored_todos (snd (TodoRepository_create_todo now new_id td coll))"
proof (cases "list_ex (\<lambda>d. get_field d ''_id'' = BObjectId new_id) coll")
  case True
  with assms(1) show ?thesis
    by (simp add: create_todo_duplicate)
next
  case False
  then have "BObjectId new_id \<notin> set (map (\<lambda>d. get_field d ''_id'') coll)"
    by (auto simp: list_ex_iff)
  with assms False show ?thesis
    by (simp add: create_todo_fresh stored_todos_def stored_todo_stored_document)
qed

lemma delete_todo_snd:
  "snd (TodoRepository_delete_todo todo_id coll) =
     (case ObjectId_of_str todo_id of
        Inl e \<Rightarrow> coll
      | Inr oid \<Rightarrow> snd (collection_delete_one (id_query (BObjectId oid)) coll))"
proof (cases "ObjectId_of_str todo_id")
  case (Inl e)
  then have "\<not> ObjectId_is_valid todo_id"
    by (simp add: ObjectId_is_valid_iff)
  with Inl show ?thesis
    by (simp add: TodoRepository_delete_todo_def)
next
  case (Inr oid)
  then have "ObjectId_is_valid todo_id"
    by (simp add: ObjectId_is_valid_iff)
  with Inr show ?thesis
    by (simp add: TodoRepository_delete_todo_def split: prod.splits)
qed

lemma stored_todos_delete:
  assumes "stored_todos coll"
  shows "stored_todos (snd (TodoRepository_delete_todo todo_id coll))"
  using assms
  by (simp add: delete_todo_snd stored_todos_def delete_one_list_all delete_one_distinct
      split: sum.splits)

section \<open>Overdue todos\<close>








section \<open>Timestamps along a history\<close>

lemma ordered_dates_iff:
  "ordered_dates clock a b \<longleftrightarrow>
     (\<exists>c u. a = Some (BDate c) \<and> b = Some (BDate u) \<and> c \<le> u \<and> u \<le> clock)"
  by (cases "(clock, a, b)" rule: ordered_dates.cases) simp_all

lemma timestamps_ordered_iff:
  "timestamps_ordered clock d \<longleftrightarrow>
     (\<exists>c u. map_of d ''created_at'' = Some (BDate c) \<and> map_of d ''updated_at'' = Some (BDate u)
        \<and> c \<le> u \<and> u \<le> clock)"
  by (simp add: timestamps_ordered_def ordered_dates_iff)

lemma timestamps_ordered_mono:
  "timestamps_ordered clock d \<Longrightarrow> clock \<le> clock' \<Longrightarrow> timestamps_ordered clock' d"
  by (auto simp: timestamps_ordered_iff)

lemma timestamps_ordered_stored_document:
  "timestamps_ordered now (stored_document now new_id td)"
  by (simp add: timestamps_ordered_iff stored_document_def TodoCreate_dict_def)

lemma timestamps_ordered_update:
  assumes "timestamps_ordered clock d" and "clock \<le> now"
  shows "timestamps_ordered now
           (set_fields (AList.update ''updated_at'' (BDate now) (update_data_of u)) d)"
  using assms by (auto simp: timestamps_ordered_iff map_of_update_set update_data_other)

lemma timestamps_ordered_parse:
  assumes "timestamps_ordered clock d" and "TodoInDB_of_document d = Inr t"
  shows "TodoInDB.created_at t \<le> TodoInDB.updated_at t"
  using assms by (auto simp: timestamps_ordered_iff TodoInDB_of_document_eq_Inr)

lemma create_todo_snd:
  "snd (TodoRepository_create_todo now new_id td coll) =
     (if list_ex (\<lambda>d. get_field d ''_id'' = BObjectId new_id) coll then coll
      else coll @ [stored_document now new_id td])"
  by (simp add: create_todo_fresh create_todo_duplicate)

lemma apply_request_timestamps:
  assumes "list_all (timestamps_ordered clock) coll" and "clock \<le> now"
  shows "list_all (timestamps_ordered now) (apply_request now r coll)"
proof -
  have base: "list_all (timestamps_ordered now) coll"
    using assms by (auto simp: list_all_iff intro: timestamps_ordered_mono)
  show ?thesis
  proof (cases r)
    case (Create new_id td)
    with base show ?thesis
      by (simp add: create_todo_snd timestamps_ordered_stored_document)
  next
    case (Update todo_id u)
    have "list_all (timestamps_ordered now)
            (snd (collection_update_one q (AList.update ''updated_at'' (BDate now) (update_data_of u)) coll))"
      for q
      using base by (rule update_one_list_all) (rule timestamps_ordered_update [of now], simp_all)
    with Update base show ?thesis
      by (simp add: update_todo_snd split: sum.splits)
  next
    case (Delete todo_id)
    with base show ?thesis
      by (simp add: delete_todo_snd delete_one_list_all split: sum.splits)
  qed
qed

lemma run_timestamps:
  assumes "sorted (map fst reqs)" and "\<forall>n\<in>set (map fst reqs). clock \<le> n"
    and "list_all (timestamps_ordered clock) coll"
  shows "\<exists>clock'. list_all (timestamps_ordered clock') (run reqs coll)"
  using assms
proof (induction reqs arbitrary: clock coll)
  case Nil
  then show ?case by auto
next
  case (Cons a reqs)
  obtain now r where a: "a = (now, r)"
    by (cases a)
  have "list_all (timestamps_ordered now) (apply_request now r coll)"
    using Cons.prems a by (intro apply_request_timestamps [of clock]) simp_all
  moreover have "sorted (map fst reqs)" and "\<forall>n\<in>set (map fst reqs). now \<le> n"
    using Cons.prems(1) a by simp_all
  ultimately show ?case
    using Cons.IH [of now "apply_request now r coll"] a by simp
qed

lemma apply_request_distinct:
  assumes "distinct (map (\<lambda>d. get_field d ''_id'') coll)"
  shows "distinct (map (\<lambda>d. get_field d ''_id'') (apply_request now r coll))"
proof (cases r)
  case (Create new_id td)
  show ?thesis
  proof (cases "list_ex (\<lambda>d. get_field d ''_id'' = BObjectId new_id) coll")
    case True
    with Create assms show ?thesis by (simp add: create_todo_snd)
  next
    case False
    then have "BObjectId new_id \<notin> set (map (\<lambda>d. get_field d ''_id'') coll)"
      by (auto simp: list_ex_iff)
    with False Create assms show ?thesis by (simp add: create_todo_snd)
  qed
next
  case (Update todo_id u)
  have "map (\<lambda>d. get_field d ''_id'')
          (snd (collection_update_one q (AList.update ''updated_at'' (BDate now) (update_data_of u)) coll))
        = map (\<lambda>d. get_field d ''_id'') coll" for q
    by (rule update_one_map_field) simp
  with Update assms show ?thesis
    by (simp add: update_todo_snd split: sum.splits)
next
  case (Delete todo_id)
  with assms show ?thesis
    by (simp add: delete_todo_snd delete_one_distinct split: sum.splits)
qed

lemma run_distinct:
  "distinct (map (\<lambda>d. get_field d ''_id'') coll) \<Longrightarrow>
     distinct (map (\<lambda>d. get_field d ''_id'') (run reqs coll))"
  by (induction reqs arbitrary: coll) (auto simp: apply_request_distinct)

lemma apply_request_created_at:
  assumes "distinct (map (\<lambda>d. get_field d ''_id'') coll)"
    and "collection_find_one (id_query v) coll = Some d"
    and "collection_find_one (id_query v) (apply_request now r coll) = Some d'"
  shows "map_of d' ''created_at'' = map_of d ''created_at''"
proof (cases r)
  case (Create new_id td)
  with assms(2,3) show ?thesis
    by (simp add: create_todo_snd collection_find_one_append split: if_splits)
next
  case (Update todo_id u)
  let ?f = "AList.update ''updated_at'' (BDate now) (update_data_of u)"
  show ?thesis
  proof (cases "ObjectId_of_str todo_id")
    case (Inl e)
    with Update assms(2,3) show ?thesis
      by (simp add: update_todo_snd)
  next
    case (Inr oid)
    show ?thesis
    proof (cases "update_data_of u = []")
      case True
      with Inr Update assms(2,3) show ?thesis
        by (simp add: update_todo_snd)
    next
      case False
      with Inr Update
      have coll': "apply_request now r coll = snd (collection_update_one (id_query (BObjectId oid)) ?f coll)"
        by (simp add: update_todo_snd)
      show ?thesis
      proof (cases "v = BObjectId oid")
        case True
        have "collection_find_one (id_query v) (apply_request now r coll) = Some (set_fields ?f d)"
          unfolding coll' True
          using assms(2) True by (simp add: update_one_find_same)
        with assms(3) have "d' = set_fields ?f d"
          by simp
        then show ?thesis
          by (simp add: map_of_update_set update_data_other)
      next
        case False
        have "collection_find_one (id_query v) (apply_request now r coll)
                = collection_find_one (id_query v) coll"
          unfolding coll' using False by (intro update_one_find_other) auto
        with assms(2,3) show ?thesis
          by simp
      qed
    qed
  qed
next
  case (Delete todo_id)
  show ?thesis
  proof (cases "ObjectId_of_str todo_id")
    case (Inl e)
    with Delete assms(2,3) show ?thesis
      by (simp add: delete_todo_snd)
  next
    case (Inr oid)
    with Delete
    have coll': "apply_request now r coll = snd (collection_delete_one (id_query (BObjectId oid)) coll)"
      by (simp add: delete_todo_snd)
    show ?thesis
    proof (cases "v = BObjectId oid")
      case True
      have "collection_find_one (id_query v) (apply_request now r coll) = None"
        unfolding coll' True using assms(1) by (rule delete_one_find_gone)
      with assms(3) show ?thesis
        by simp
    next
      case False
      have "collection_find_one (id_query v) (apply_request now r coll)
              = collection_find_one (id_query v) coll"
        unfolding coll' using False by (rule delete_one_find_other)
      with assms(2,3) show ?thesis
        by simp
    qed
  qed
qed

text \<open>
  Claim C9.  Along every history of create, update and delete calls that starts from the
  empty collection and whose instants do not decrease, every record that can be read has
  \<open>created_at \<le> updated_at\<close>; and whatever call comes next, at whatever instant, a
  record that can be read before and after it has the same \<open>created_at\<close>.
\<close>

theorem timestamps_invariant:
  assumes "sorted (map fst reqs)"
  shows "(\<forall>todo_id t.
            TodoRepository_get_todo_by_id todo_id (run reqs []) = Inr (Some t)
          \<longrightarrow> TodoInDB.created_at t \<le> TodoInDB.updated_at t)
       \<and> (\<forall>now r todo_id t t'.
            TodoRepository_get_todo_by_id todo_id (run reqs []) = Inr (Some t)
          \<and> TodoRepository_get_todo_by_id todo_id (apply_request now r (run reqs [])) = Inr (Some t')
          \<longrightarrow> TodoInDB.created_at t' = TodoInDB.created_at t)"
proof (intro conjI allI impI)
  fix todo_id t
  assume get: "TodoRepository_get_todo_by_id todo_id (run reqs []) = Inr (Some t)"
  have "\<exists>clock. \<forall>n\<in>set (map fst reqs). clock \<le> n"
  proof (cases reqs)
    case Nil
    then show ?thesis by simp
  next
    case (Cons a rs)
    with assms have "\<forall>n\<in>set (map fst reqs). fst a \<le> n"
      by auto
    then show ?thesis ..
  qed
  then obtain clock where "\<forall>n\<in>set (map fst reqs). clock \<le> n" ..
  with assms obtain clock' where inv: "list_all (timestamps_ordered clock') (run reqs [])"
    using run_timestamps [of reqs clock "[]"] by auto
  obtain oid d where "collection_find_one (id_query (BObjectId oid)) (run reqs []) = Some d"
    and parse: "TodoInDB_of_document d = Inr t"
    using get_todo_by_id_SomeD [OF get] by blast
  then have "d \<in> set (run reqs [])"
    by (simp add: collection_find_one_SomeD)
  with inv have "timestamps_ordered clock' d"
    by (simp add: list_all_iff)
  then show "TodoInDB.created_at t \<le> TodoInDB.updated_at t"
    using parse by (rule timestamps_ordered_parse)
next
  fix now r todo_id t t'
  assume both: "TodoRepository_get_todo_by_id todo_id (run reqs []) = Inr (Some t)
    \<and> TodoRepository_get_todo_by_id todo_id (apply_request now r (run reqs [])) = Inr (Some t')"
  obtain oid d where oid: "ObjectId_of_str todo_id = Inr oid"
    and found: "collection_find_one (id_query (BObjectId oid)) (run reqs []) = Some d"
    and parse: "TodoInDB_of_document d = Inr t"
    using get_todo_by_id_SomeD [of todo_id "run reqs []" t] both by blast
  obtain oid' d' where oid': "ObjectId_of_str todo_id = Inr oid'"
    and found': "collection_find_one (id_query (BObjectId oid')) (apply_request now r (run reqs [])) = Some d'"
    and parse': "TodoInDB_of_document d' = Inr t'"
    using get_todo_by_id_SomeD [of todo_id "apply_request now r (run reqs [])" t'] both by blast
  have same: "oid' = oid"
    using oid oid' by simp
  have "distinct (map (\<lambda>d. get_field d ''_id'') (run reqs []))"
    by (rule run_distinct) simp
  then have "map_of d' ''created_at'' = map_of d ''created_at''"
    using found found' [unfolded same] by (rule apply_request_created_at)
  moreover have "validate_datetime (map_of d ''created_at'') = Inr (TodoInDB.created_at t)"
    and "validate_datetime (map_of d' ''created_at'') = Inr (TodoInDB.created_at t')"
    using parse parse' by (simp_all add: TodoInDB_of_document_eq_Inr)
  ultimately show "TodoInDB.created_at t' = TodoInDB.created_at t"
    by simp
qed

lemma example_stored_document: "stored_document 1 1 example_create = example_document"
  by (simp add: stored_document_def example_create_def example_document_def TodoCreate_dict_def
      opt_str_def opt_date_def)

lemma example_run_create: "run [(1, Create 1 example_create)] [] = [example_document]"
  by (simp add: create_todo_snd example_stored_document)

lemma example_completed:
  "\<exists>t'. TodoRepository_get_todo_by_id ''000000000000000000000001''
           (snd (TodoRepository_update_todo 7 ''000000000000000000000001''
              \<lparr> TodoUpdate.title = None, description = None, status = Some COMPLETED,
                priority = None, due_date = None \<rparr> [example_document])) = Inr (Some t')
       \<and> TodoInDB.created_at t' = 1 \<and> TodoInDB.updated_at t' = 7"
proof -
  let ?u = "\<lparr> TodoUpdate.title = None, description = None, status = Some COMPLETED,
                priority = None, due_date = None \<rparr>"
  let ?d' = "set_fields (AList.update ''updated_at'' (BDate 7) (update_data_of ?u)) example_document"
  have valid: "TodoUpdate_valid ?u"
    by (simp add: TodoUpdate_valid_def)
  have nonempty: "update_data_of ?u \<noteq> []"
    by (simp add: update_data_of_empty_iff)
  obtain t' where parse': "TodoInDB_of_document ?d' = Inr t'"
    and c: "TodoInDB.created_at t' = 1" and u: "TodoInDB.updated_at t' = 7"
    using parse_update_set [OF example_parse valid, of 7] by (simp add: example_todo_def)
  have found': "collection_find_one (id_query (BObjectId 1))
                  (snd (TodoRepository_update_todo 7 ''000000000000000000000001'' ?u [example_document]))
                = Some ?d'"
    using update_todo_found [OF example_id example_find nonempty, of 7] by auto
  show ?thesis
    using get_todo_by_id_found [OF example_id found'] parse' c u by simp
qed

theorem timestamps_invariant_witness:
  "sorted (map fst [(1::int, Create 1 example_create),
                    (7, Update ''000000000000000000000001''
                          \<lparr> TodoUpdate.title = None, description = None, status = Some COMPLETED,
                            priority = None, due_date = None \<rparr>)])
   \<and> (\<exists>t. TodoRepository_get_todo_by_id ''000000000000000000000001''
              (run [(1, Create 1 example_create),
                    (7, Update ''000000000000000000000001''
                          \<lparr> TodoUpdate.title = None, description = None, status = Some COMPLETED,
                            priority = None, due_date = None \<rparr>)] []) = Inr (Some t)
          \<and> TodoInDB.created_at t = 1 \<and> TodoInDB.updated_at t = 7
          \<and> TodoInDB.created_at t \<le> TodoInDB.updated_at t)
   \<and> TodoRepository_get_todo_by_id ''000000000000000000000001''
        (run [(1, Create 1 example_create)] []) = Inr (Some example_todo)
   \<and> (\<exists>t'. TodoRepository_get_todo_by_id ''000000000000000000000001''
              (apply_request 7
                 (Update ''000000000000000000000001''
                    \<lparr> TodoUpdate.title = None, description = None, status = Some COMPLETED,
                      priority = None, due_date = None \<rparr>)
                 (run [(1, Create 1 example_create)] [])) = Inr (Some t')
          \<and> TodoInDB.created_at t' = TodoInDB.created_at example_todo)"
proof -
  let ?u = "\<lparr> TodoUpdate.title = None, description = None, status = Some COMPLETED,
              priority = None, due_date = None \<rparr>"
  let ?tid = "''000000000000000000000001''"
  let ?reqs = "[(1::int, Create 1 example_create), (7, Update ?tid ?u)]"
  have s2: "sorted (map fst ?reqs)"
    by simp
  have s1: "sorted (map fst [(1::int, Create 1 example_create)])"
    by simp
  have run2: "run ?reqs [] = snd (TodoRepository_update_todo 7 ?tid ?u [example_document])"
    by (simp add: create_todo_snd example_stored_document)
  obtain t where get2: "TodoRepository_get_todo_by_id ?tid (run ?reqs []) = Inr (Some t)"
    and c: "TodoInDB.created_at t = 1" and u: "TodoInDB.updated_at t = 7"
    using example_completed unfolding run2 by blast
  have le: "TodoInDB.created_at t \<le> TodoInDB.updated_at t"
    using timestamps_invariant [OF s2, THEN conjunct1, rule_format, OF get2] .
  have get1: "TodoRepository_get_todo_by_id ?tid (run [(1, Create 1 example_create)] [])
                = Inr (Some example_todo)"
    unfolding example_run_create using get_todo_by_id_found [OF example_id example_find] example_parse
    by simp
  obtain t' where get1': "TodoRepository_get_todo_by_id ?tid
              (apply_request 7 (Update ?tid ?u) (run [(1, Create 1 example_create)] [])) = Inr (Some t')"
    using example_completed unfolding example_run_create by auto
  have keep: "TodoInDB.created_at t' = TodoInDB.created_at example_todo"
    using timestamps_invariant [OF s1, THEN conjunct2, rule_format, OF conjI [OF get1 get1']] .
  show ?thesis
    using s2 get2 c u le get1 get1' keep by blast
qed

end
